theory Spec2Isabelle
  imports Main "HOL-Library.Word" "HOL-Library.AList"
begin

unbundle bit_operations_syntax

section \<open>Bytes and text encodings\<close>

text \<open>
  A Python \<open>bytes\<close> value is a list of 8-bit words. A Python \<open>str\<close> is a
  \<open>string\<close>; each \<open>char\<close> stands for the code point of the same number
  (U+0000 to U+00FF), which covers every text the JSON encoder emits (it escapes all
  non-ASCII characters).
\<close>

type_synonym byte = "8 word"
type_synonym bytes = "byte list"

text \<open>\<open>str.encode("utf-8")\<close>: one byte below U+0080, two bytes up to U+00FF.\<close>

definition utf8_char :: "char \<Rightarrow> bytes" where
  "utf8_char c =
     (let n = (of_char c :: nat)
      in if n < 128 then [of_nat n] else [of_nat (192 + n div 64), of_nat (128 + n mod 64)])"

definition encode_utf8 :: "string \<Rightarrow> bytes" where
  "encode_utf8 s = concat (map utf8_char s)"

text \<open>
  \<open>str.encode("utf-16")\<close>: the byte order mark followed by one 16-bit code unit per
  code point, in the byte order of the host (little-endian here: \<open>FF FE\<close>, low byte
  first).
\<close>

definition utf16_char :: "char \<Rightarrow> bytes" where
  "utf16_char c = [of_nat (of_char c), 0]"

definition encode_utf16 :: "string \<Rightarrow> bytes" where
  "encode_utf16 s = [0xFF, 0xFE] @ concat (map utf16_char s)"

text \<open>The codec names the two variants of the pass class pass to \<open>str.encode\<close>.\<close>

datatype codec = UTF8 | UTF16

fun encode :: "codec \<Rightarrow> string \<Rightarrow> bytes" where
  "encode UTF8 s = encode_utf8 s"
| "encode UTF16 s = encode_utf16 s"

section \<open>The content digest: \<open>hashlib.sha1(data).hexdigest()\<close>\<close>

text \<open>
  SHA-1 as FIPS 180 defines it, on 32-bit values held as naturals with the wrap-around
  written out.
\<close>

definition rotl32 :: "nat \<Rightarrow> nat \<Rightarrow> nat" where
  "rotl32 n x = ((x * 2 ^ n) mod 4294967296) OR (x div 2 ^ (32 - n))"

definition add32 :: "nat \<Rightarrow> nat \<Rightarrow> nat" where
  "add32 x y = (x + y) mod 4294967296"

definition not32 :: "nat \<Rightarrow> nat" where
  "not32 x = 4294967295 - x mod 4294967296"

definition len_bytes :: "nat \<Rightarrow> nat list" where
  "len_bytes n = map (\<lambda>i. (n div 256 ^ i) mod 256) [7, 6, 5, 4, 3, 2, 1, 0]"

definition sha1_pad :: "nat list \<Rightarrow> nat list" where
  "sha1_pad m = m @ [128] @ replicate ((119 - length m mod 64) mod 64) 0
                  @ len_bytes (8 * length m)"

fun words_of :: "nat list \<Rightarrow> nat list" where
  "words_of (a # b # c # d # rest) = (((a * 256 + b) * 256 + c) * 256 + d) # words_of rest"
| "words_of _ = []"

text \<open>The message schedule is kept newest word first while it is extended.\<close>

definition schedule_step :: "nat list \<Rightarrow> nat list" where
  "schedule_step ws = rotl32 1 (ws ! 2 XOR ws ! 7 XOR ws ! 13 XOR ws ! 15) # ws"

definition schedule :: "nat list \<Rightarrow> nat list" where
  "schedule ws = rev (fold (\<lambda>_. schedule_step) [16..<80] (rev ws))"

definition sha1_f :: "nat \<Rightarrow> nat \<Rightarrow> nat \<Rightarrow> nat \<Rightarrow> nat" where
  "sha1_f t b c d =
     (if t < 20 then (b AND c) OR (not32 b AND d)
      else if t < 40 then b XOR c XOR d
      else if t < 60 then (b AND c) OR (b AND d) OR (c AND d)
      else b XOR c XOR d)"

definition sha1_k :: "nat \<Rightarrow> nat" where
  "sha1_k t = (if t < 20 then 0x5A827999 else if t < 40 then 0x6ED9EBA1
               else if t < 60 then 0x8F1BBCDC else 0xCA62C1D6)"

type_synonym sha1_state = "nat \<times> nat \<times> nat \<times> nat \<times> nat"

fun sha1_round :: "sha1_state \<Rightarrow> nat \<times> nat \<Rightarrow> sha1_state" where
  "sha1_round (a, b, c, d, e) (t, w) =
     (add32 (add32 (add32 (add32 (rotl32 5 a) (sha1_f t b c d)) e) (sha1_k t)) w,
      a, rotl32 30 b, c, d)"

fun sha1_rounds :: "nat \<Rightarrow> sha1_state \<Rightarrow> nat list \<Rightarrow> sha1_state" where
  "sha1_rounds t h [] = h"
| "sha1_rounds t h (w # ws) = sha1_rounds (t + 1) (sha1_round h (t, w)) ws"

fun sha1_add :: "sha1_state \<Rightarrow> sha1_state \<Rightarrow> sha1_state" where
  "sha1_add (a, b, c, d, e) (a', b', c', d', e') =
     (add32 a a', add32 b b', add32 c c', add32 d d', add32 e e')"

definition sha1_block :: "sha1_state \<Rightarrow> nat list \<Rightarrow> sha1_state" where
  "sha1_block h blk = sha1_add h (sha1_rounds 0 h (schedule (words_of blk)))"

function sha1_blocks :: "sha1_state \<Rightarrow> nat list \<Rightarrow> sha1_state" where
  "sha1_blocks h bs =
     (if length bs < 64 then h else sha1_blocks (sha1_block h (take 64 bs)) (drop 64 bs))"
  by pat_completeness auto
termination
  by (relation "measure (\<lambda>(h, bs). length bs)") auto

declare sha1_blocks.simps [simp del]

definition sha1_init :: sha1_state where
  "sha1_init = (0x67452301, 0xEFCDAB89, 0x98BADCFE, 0x10325476, 0xC3D2E1F0)"

definition word_bytes :: "nat \<Rightarrow> bytes" where
  "word_bytes w = map (\<lambda>i. of_nat ((w div 256 ^ i) mod 256)) [3, 2, 1, 0]"

fun state_bytes :: "sha1_state \<Rightarrow> bytes" where
  "state_bytes (a, b, c, d, e) = concat (map word_bytes [a, b, c, d, e])"

definition sha1 :: "bytes \<Rightarrow> bytes" where
  "sha1 m = state_bytes (sha1_blocks sha1_init (sha1_pad (map unat m)))"

definition hex_chars :: string where
  "hex_chars = ''0123456789abcdef''"

definition hex_digit :: "nat \<Rightarrow> char" where
  "hex_digit n = hex_chars ! (n mod 16)"

definition hex_byte :: "byte \<Rightarrow> string" where
  "hex_byte b = [hex_digit (unat b div 16), hex_digit (unat b mod 16)]"

definition hexdigest :: "bytes \<Rightarrow> string" where
  "hexdigest bs = concat (map hex_byte bs)"

definition sha1_hexdigest :: "bytes \<Rightarrow> string" where
  "sha1_hexdigest data = hexdigest (sha1 data)"

section \<open>Python values and \<open>json.dumps\<close>\<close>

text \<open>
  The values a pass document holds once every object has answered \<open>json_dict()\<close>.
  A \<open>decimal.Decimal\<close> is carried by its text \<open>str(d)\<close> and a float by the text
  the encoder prints for it. Dictionaries are association lists in insertion order.
\<close>

datatype pyval =
    PNone
  | PBool bool
  | PInt int
  | PFloat string
  | PStr string
  | PDecimal string
  | PList "pyval list"
  | PDict "(string \<times> pyval) list"

text \<open>Assigning \<open>d[k] = v\<close>: an existing key keeps its place, a new key goes last.\<close>

definition dict_set :: "string \<Rightarrow> 'v \<Rightarrow> (string \<times> 'v) list \<Rightarrow> (string \<times> 'v) list" where
  "dict_set k v d = AList.update k v d"

definition dict_update :: "(string \<times> 'v) list \<Rightarrow> (string \<times> 'v) list \<Rightarrow> (string \<times> 'v) list" where
  "dict_update d kvs = fold (\<lambda>kv. dict_set (fst kv) (snd kv)) kvs d"

fun py_join :: "string \<Rightarrow> string list \<Rightarrow> string" where
  "py_join sep [] = []"
| "py_join sep [x] = x"
| "py_join sep (x # y # ys) = x @ sep @ py_join sep (y # ys)"

fun nat_str :: "nat \<Rightarrow> string" where
  "nat_str n = (if n < 10 then [hex_digit n] else nat_str (n div 10) @ [hex_digit (n mod 10)])"

declare nat_str.simps [simp del]

definition int_str :: "int \<Rightarrow> string" where
  "int_str i = (if i < 0 then CHR ''-'' # nat_str (nat (- i)) else nat_str (nat i))"

definition hex4 :: "nat \<Rightarrow> string" where
  "hex4 n = [hex_digit (n div 4096), hex_digit (n div 256), hex_digit (n div 16), hex_digit n]"

text \<open>
  The encoder's \<open>ensure_ascii\<close> escaping: the quote, the backslash and the short
  escapes, and \<open>\uXXXX\<close> for everything outside the range from space to tilde.
\<close>

definition escape_char :: "char \<Rightarrow> string" where
  "escape_char c =
     (let n = (of_char c :: nat)
      in if n = 0x22 then [CHR 0x5C, CHR 0x22]
         else if n = 0x5C then [CHR 0x5C, CHR 0x5C]
         else if n = 0x0A then [CHR 0x5C, CHR ''n'']
         else if n = 0x0D then [CHR 0x5C, CHR ''r'']
         else if n = 0x09 then [CHR 0x5C, CHR ''t'']
         else if n = 0x08 then [CHR 0x5C, CHR ''b'']
         else if n = 0x0C then [CHR 0x5C, CHR ''f'']
         else if 32 \<le> n \<and> n \<le> 126 then [c]
         else [CHR 0x5C, CHR ''u''] @ hex4 n)"

definition json_string :: "string \<Rightarrow> string" where
  "json_string s = [CHR 0x22] @ concat (map escape_char s) @ [CHR 0x22]"

text \<open>
  \<open>json.dumps(v, default=pass_handler)\<close> with the default separators; the handler's
  second branch turns a \<open>Decimal\<close> into its text, which is then encoded as a string.
\<close>

fun json_dumps :: "pyval \<Rightarrow> string" where
  "json_dumps PNone = ''null''"
| "json_dumps (PBool b) = (if b then ''true'' else ''false'')"
| "json_dumps (PInt i) = int_str i"
| "json_dumps (PFloat r) = r"
| "json_dumps (PStr s) = json_string s"
| "json_dumps (PDecimal s) = json_string s"
| "json_dumps (PList xs) = ''['' @ py_join '', '' (map json_dumps xs) @ '']''"
| "json_dumps (PDict kvs) =
     ''{'' @ py_join '', '' (map (\<lambda>kv. json_string (fst kv) @ '': '' @ json_dumps (snd kv)) kvs)
       @ ''}''"

section \<open>Exceptions\<close>

text \<open>Each exception carries its message; \<open>str(e)\<close> is that message.\<close>

datatype exn =
    AttributeError string
  | TypeError string
  | ValueError string
  | FileNotFoundError string
  | PermissionError string
  | OSError string

fun exn_str :: "exn \<Rightarrow> string" where
  "exn_str (AttributeError m) = m"
| "exn_str (TypeError m) = m"
| "exn_str (ValueError m) = m"
| "exn_str (FileNotFoundError m) = m"
| "exn_str (PermissionError m) = m"
| "exn_str (OSError m) = m"

text \<open>\<open>PassCreationError(message)\<close> raised \<open>from e\<close>: the message and the cause.\<close>

datatype pass_creation_error = PassCreationError string exn

definition no_attribute :: "string \<Rightarrow> string \<Rightarrow> exn" where
  "no_attribute ty name =
     AttributeError ([CHR 0x27] @ ty @ [CHR 0x27] @ '' object has no attribute ''
                       @ [CHR 0x27] @ name @ [CHR 0x27])"

section \<open>The pass data model\<close>

datatype BarcodeFormat = PDF417 | QR | AZTEC | CODE128

fun BarcodeFormat_value :: "BarcodeFormat \<Rightarrow> string" where
  "BarcodeFormat_value PDF417 = ''PKBarcodeFormatPDF417''"
| "BarcodeFormat_value QR = ''PKBarcodeFormatQR''"
| "BarcodeFormat_value AZTEC = ''PKBarcodeFormatAztec''"
| "BarcodeFormat_value CODE128 = ''PKBarcodeFormatCode128''"

datatype Alignment = LEFT | CENTER | RIGHT | JUSTIFIED | NATURAL

fun Alignment_value :: "Alignment \<Rightarrow> string" where
  "Alignment_value LEFT = ''PKTextAlignmentLeft''"
| "Alignment_value CENTER = ''PKTextAlignmentCenter''"
| "Alignment_value RIGHT = ''PKTextAlignmentRight''"
| "Alignment_value JUSTIFIED = ''PKTextAlignmentJustified''"
| "Alignment_value NATURAL = ''PKTextAlignmentNatural''"

datatype TransitType = AIR | TRAIN | BUS | BOAT | GENERIC

fun TransitType_value :: "TransitType \<Rightarrow> string" where
  "TransitType_value AIR = ''PKTransitTypeAir''"
| "TransitType_value TRAIN = ''PKTransitTypeTrain''"
| "TransitType_value BUS = ''PKTransitTypeBus''"
| "TransitType_value BOAT = ''PKTransitTypeBoat''"
| "TransitType_value GENERIC = ''PKTransitTypeGeneric''"

subsection \<open>\<open>fields.Barcode\<close>\<close>

text \<open>
  The instance attributes \<open>_format\<close>, \<open>_message\<close>, \<open>_message_encoding\<close> and
  \<open>_alt_text\<close>; the class defines no property beside them.
\<close>

record Barcode =
  b_format :: BarcodeFormat
  b_message :: string
  b_message_encoding :: string
  b_alt_text :: string

datatype attr = AFormat BarcodeFormat | AStr string

fun attr_str :: "attr \<Rightarrow> string" where
  "attr_str (AFormat f) = BarcodeFormat_value f"
| "attr_str (AStr s) = s"

text \<open>Attribute access \<open>barcode.name\<close>: the four instance attributes, or AttributeError.\<close>

definition Barcode_getattr :: "Barcode \<Rightarrow> string \<Rightarrow> exn + attr" where
  "Barcode_getattr b name =
     (if name = ''_format'' then Inr (AFormat (b_format b))
      else if name = ''_message'' then Inr (AStr (b_message b))
      else if name = ''_message_encoding'' then Inr (AStr (b_message_encoding b))
      else if name = ''_alt_text'' then Inr (AStr (b_alt_text b))
      else Inl (no_attribute ''Barcode'' name))"

text \<open>\<open>Barcode(message, format, alt_text)\<close> with the default message encoding.\<close>

definition Barcode_init :: "string \<Rightarrow> BarcodeFormat \<Rightarrow> string \<Rightarrow> exn + Barcode" where
  "Barcode_init message fmt alt_text =
     (if message = [] then Inl (ValueError ''Barcode message cannot be empty'')
      else Inr \<lparr>b_format = fmt, b_message = message,
                b_message_encoding = ''iso-8859-1'', b_alt_text = alt_text\<rparr>)"

definition Barcode_json_dict :: "Barcode \<Rightarrow> pyval" where
  "Barcode_json_dict b =
     PDict ([(''format'', PStr (BarcodeFormat_value (b_format b))),
             (''message'', PStr (b_message b)),
             (''messageEncoding'', PStr (b_message_encoding b))]
            @ (if b_alt_text b \<noteq> [] then [(''altText'', PStr (b_alt_text b))] else []))"

text \<open>
  \<open>value not in {BarcodeFormat.PDF417, BarcodeFormat.QR, BarcodeFormat.AZTEC}\<close>; the
  enumeration mixes in \<open>str\<close>, so a plain string equal to a member's value is found too.
\<close>

definition original_formats :: "BarcodeFormat list" where
  "original_formats = [PDF417, QR, AZTEC]"

definition in_original_formats :: "attr \<Rightarrow> bool" where
  "in_original_formats a = (attr_str a \<in> set (map BarcodeFormat_value original_formats))"

subsection \<open>\<open>fields.Field\<close> and \<open>pass_information\<close>\<close>

record Field =
  f_key :: string
  f_value :: pyval
  f_label :: "string option"
  f_change_message :: string
  f_text_alignment :: Alignment

definition opt_str :: "string option \<Rightarrow> pyval" where
  "opt_str v = (case v of None \<Rightarrow> PNone | Some s \<Rightarrow> PStr s)"

definition Field_json_dict :: "Field \<Rightarrow> pyval" where
  "Field_json_dict f =
     PDict [(''key'', PStr (f_key f)),
            (''value'', f_value f),
            (''label'', opt_str (f_label f)),
            (''changeMessage'', PStr (f_change_message f)),
            (''textAlignment'', PStr (Alignment_value (f_text_alignment f)))]"

text \<open>
  The five dataclasses over \<open>PassInformation\<close> differ in \<open>jsonname\<close>; the base class
  has none, and the boarding pass adds its transit type.
\<close>

datatype pass_kind = Base | BoardingPass TransitType | Coupon | EventTicket | Generic | StoreCard

record PassInformation =
  kind :: pass_kind
  header_fields :: "Field list"
  primary_fields :: "Field list"
  secondary_fields :: "Field list"
  back_fields :: "Field list"
  auxiliary_fields :: "Field list"

text \<open>
  \<open>ApplePass.pass_information\<close> is typed \<open>Any\<close>: a pass information object, or the
  plain dictionary that \<open>ApplePassGeneratorClient.get_pass\<close> hands over.
\<close>

datatype pass_information = Info PassInformation | CardInfo "(string \<times> pyval) list"

definition field_section :: "string \<Rightarrow> Field list \<Rightarrow> (string \<times> pyval) list" where
  "field_section key fs =
     (if fs \<noteq> [] then [(key, PList (map Field_json_dict fs))] else [])"

definition PassInformation_json_dict :: "PassInformation \<Rightarrow> (string \<times> pyval) list" where
  "PassInformation_json_dict i =
     (let result = field_section ''headerFields'' (header_fields i)
                   @ field_section ''primaryFields'' (primary_fields i)
                   @ field_section ''secondaryFields'' (secondary_fields i)
                   @ field_section ''backFields'' (back_fields i)
                   @ field_section ''auxiliaryFields'' (auxiliary_fields i)
      in case kind i of
           BoardingPass t \<Rightarrow> dict_set ''transitType'' (PStr (TransitType_value t)) result
         | _ \<Rightarrow> result)"

fun jsonname :: "pass_information \<Rightarrow> exn + string" where
  "jsonname (CardInfo d) = Inl (no_attribute ''dict'' ''jsonname'')"
| "jsonname (Info i) =
     (case kind i of
        Base \<Rightarrow> Inl (no_attribute ''PassInformation'' ''jsonname'')
      | BoardingPass t \<Rightarrow> Inr ''boardingPass''
      | Coupon \<Rightarrow> Inr ''coupon''
      | EventTicket \<Rightarrow> Inr ''eventTicket''
      | Generic \<Rightarrow> Inr ''generic''
      | StoreCard \<Rightarrow> Inr ''storeCard'')"

fun pass_information_json_dict :: "pass_information \<Rightarrow> exn + pyval" where
  "pass_information_json_dict (CardInfo d) = Inl (no_attribute ''dict'' ''json_dict'')"
| "pass_information_json_dict (Info i) = Inr (PDict (PassInformation_json_dict i))"

section \<open>The pass class \<open>ApplePass\<close>\<close>

text \<open>
  What \<open>add_file\<close> may be handed and what \<open>_files\<close> may hold: \<open>bytes\<close>, a
  \<open>bytearray\<close>, a \<open>BytesIO\<close> (its buffer and position), a \<open>BufferedReader\<close> (the
  content of the open file), a \<open>str\<close>, or an object of any other type, kept by the text
  \<open>type(obj)\<close> prints.
\<close>

datatype filedata =
    Bytes bytes
  | ByteArray bytes
  | BytesIO bytes nat
  | BufferedReader bytes
  | Str string
  | Other string

text \<open>The dataclass; \<open>files\<close> and \<open>hashes\<close> are its \<open>_files\<close> and \<open>_hashes\<close>.\<close>

record ApplePass =
  pass_information :: pass_information
  pass_type_identifier :: string
  organization_name :: string
  team_identifier :: string
  serial_number :: string
  description :: string
  format_version :: int
  background_color :: "string option"
  foreground_color :: "string option"
  label_color :: "string option"
  logo_text :: "string option"
  barcode :: "Barcode option"
  barcodes :: "pyval list option"
  suppress_strip_shine :: bool
  web_service_url :: "string option"
  authentication_token :: "string option"
  locations :: "pyval list option"
  ibeacons :: "pyval list option"
  relevant_date :: "string option"
  associated_store_identifiers :: "pyval list option"
  app_launch_url :: "string option"
  user_info :: "(string \<times> pyval) list option"
  expiration_date :: "string option"
  voided :: "bool option"
  files :: "(string \<times> filedata) list"
  hashes :: "(string \<times> string) list"

subsection \<open>\<open>add_file\<close>\<close>

text \<open>A \<open>BytesIO\<close> is read from its position on; anything else is stored as it is.\<close>

definition add_file :: "string \<Rightarrow> filedata \<Rightarrow> ApplePass \<Rightarrow> ApplePass" where
  "add_file name file_data p =
     (case file_data of
        BytesIO buf pos \<Rightarrow> p\<lparr>files := dict_set name (Bytes (drop pos buf)) (files p)\<rparr>
      | _ \<Rightarrow> p\<lparr>files := dict_set name file_data (files p)\<rparr>)"

subsection \<open>\<open>json_dict\<close>\<close>

definition json_dict_head :: "ApplePass \<Rightarrow> exn + (string \<times> pyval) list" where
  "json_dict_head p =
     (case jsonname (pass_information p) of
        Inl e \<Rightarrow> Inl e
      | Inr jn \<Rightarrow>
          (case pass_information_json_dict (pass_information p) of
             Inl e \<Rightarrow> Inl e
           | Inr info \<Rightarrow>
               Inr (dict_update []
                     [(''description'', PStr (description p)),
                      (''formatVersion'', PInt (format_version p)),
                      (''organizationName'', PStr (organization_name p)),
                      (''passTypeIdentifier'', PStr (pass_type_identifier p)),
                      (''serialNumber'', PStr (serial_number p)),
                      (''teamIdentifier'', PStr (team_identifier p)),
                      (''suppressStripShine'', PBool (suppress_strip_shine p)),
                      (jn, info)])))"

text \<open>
  The barcode block of \<open>apple_pass.py\<close>. The legacy barcode is stored as an object and
  rendered by \<open>pass_handler\<close> through its \<open>json_dict()\<close> when the encoder reaches it.
\<close>

definition barcode_block_ap :: "Barcode \<Rightarrow> exn + (string \<times> pyval) list" where
  "barcode_block_ap b =
     (let new_barcodes = [Barcode_json_dict b]
      in case Barcode_getattr b ''_format'' of
           Inl e \<Rightarrow> Inl e
         | Inr fmt \<Rightarrow>
             if \<not> in_original_formats fmt then
               (case Barcode_getattr b ''message'' of
                  Inl e \<Rightarrow> Inl e
                | Inr m \<Rightarrow>
                    (case Barcode_getattr b ''altText'' of
                       Inl e \<Rightarrow> Inl e
                     | Inr a \<Rightarrow>
                         (case Barcode_init (attr_str m) PDF417 (attr_str a) of
                            Inl e \<Rightarrow> Inl e
                          | Inr legacy_barcode \<Rightarrow>
                              Inr [(''barcodes'', PList new_barcodes),
                                   (''barcode'', Barcode_json_dict legacy_barcode)])))
             else Inr [(''barcodes'', PList new_barcodes), (''barcode'', Barcode_json_dict b)])"

text \<open>The barcode block of \<open>models.py\<close>: it compares \<open>self.barcode.format\<close>.\<close>

definition barcode_block_m :: "Barcode \<Rightarrow> exn + (string \<times> pyval) list" where
  "barcode_block_m b =
     (let new_barcodes = [Barcode_json_dict b]
      in case Barcode_getattr b ''format'' of
           Inl e \<Rightarrow> Inl e
         | Inr fmt \<Rightarrow>
             if \<not> in_original_formats fmt then
               (case Barcode_getattr b ''message'' of
                  Inl e \<Rightarrow> Inl e
                | Inr m \<Rightarrow>
                    (case Barcode_getattr b ''altText'' of
                       Inl e \<Rightarrow> Inl e
                     | Inr a \<Rightarrow>
                         (case Barcode_init (attr_str m) PDF417 (attr_str a) of
                            Inl e \<Rightarrow> Inl e
                          | Inr legacy_barcode \<Rightarrow>
                              Inr [(''barcodes'', PList new_barcodes),
                                   (''barcode'', Barcode_json_dict legacy_barcode)])))
             else Inr [(''barcodes'', PList new_barcodes), (''barcode'', Barcode_json_dict b)])"

definition opt_list :: "pyval list option \<Rightarrow> pyval option" where
  "opt_list v = map_option PList v"

definition optional_fields :: "ApplePass \<Rightarrow> (string \<times> pyval option) list" where
  "optional_fields p =
     [(''relevantDate'', map_option PStr (relevant_date p)),
      (''backgroundColor'', map_option PStr (background_color p)),
      (''foregroundColor'', map_option PStr (foreground_color p)),
      (''labelColor'', map_option PStr (label_color p)),
      (''logoText'', map_option PStr (logo_text p)),
      (''locations'', opt_list (locations p)),
      (''beacons'', opt_list (ibeacons p)),
      (''userInfo'', map_option PDict (user_info p)),
      (''associatedStoreIdentifiers'', opt_list (associated_store_identifiers p)),
      (''appLaunchURL'', map_option PStr (app_launch_url p)),
      (''expirationDate'', map_option PStr (expiration_date p))]"

text \<open>\<open>{k: v for k, v in optional_fields.items() if v is not None}\<close>\<close>

fun present :: "(string \<times> pyval option) list \<Rightarrow> (string \<times> pyval) list" where
  "present [] = []"
| "present ((k, None) # rest) = present rest"
| "present ((k, Some v) # rest) = (k, v) # present rest"

definition json_dict_tail :: "ApplePass \<Rightarrow> (string \<times> pyval) list \<Rightarrow> (string \<times> pyval) list" where
  "json_dict_tail p d =
     (let d1 = dict_update d (present (optional_fields p));
          d2 = (if voided p = Some True then dict_set ''voided'' (PBool True) d1 else d1)
      in case web_service_url p of
           None \<Rightarrow> d2
         | Some url \<Rightarrow>
             if url = [] then d2
             else dict_update d2 [(''webServiceURL'', PStr url),
                                  (''authenticationToken'', opt_str (authentication_token p))])"

definition json_dict_with ::
  "(Barcode \<Rightarrow> exn + (string \<times> pyval) list) \<Rightarrow> ApplePass \<Rightarrow> exn + (string \<times> pyval) list" where
  "json_dict_with barcode_block p =
     (case json_dict_head p of
        Inl e \<Rightarrow> Inl e
      | Inr d \<Rightarrow>
          (case barcode p of
             None \<Rightarrow> Inr (json_dict_tail p d)
           | Some b \<Rightarrow>
               (case barcode_block b of
                  Inl e \<Rightarrow> Inl e
                | Inr kvs \<Rightarrow> Inr (json_dict_tail p (dict_update d kvs)))))"

definition json_dict_ap :: "ApplePass \<Rightarrow> exn + (string \<times> pyval) list" where
  "json_dict_ap = json_dict_with barcode_block_ap"

definition json_dict_m :: "ApplePass \<Rightarrow> exn + (string \<times> pyval) list" where
  "json_dict_m = json_dict_with barcode_block_m"

text \<open>\<open>_create_pass_json\<close>: \<open>json.dumps(self, default=pass_handler)\<close>.\<close>

definition create_pass_json_ap :: "ApplePass \<Rightarrow> exn + string" where
  "create_pass_json_ap p =
     (case json_dict_ap p of Inl e \<Rightarrow> Inl e | Inr d \<Rightarrow> Inr (json_dumps (PDict d)))"

definition create_pass_json_m :: "ApplePass \<Rightarrow> exn + string" where
  "create_pass_json_m p =
     (case json_dict_m p of Inl e \<Rightarrow> Inl e | Inr d \<Rightarrow> Inr (json_dumps (PDict d)))"

subsection \<open>\<open>_create_manifest\<close>\<close>

text \<open>
  The \<open>isinstance\<close> chain that \<open>apple_pass.py\<close> runs on every staged file, in
  \<open>_create_manifest\<close> and again in \<open>_create_zip\<close>; a reader is rewound before it is
  read.
\<close>

definition file_data_bytes :: "string \<Rightarrow> filedata \<Rightarrow> exn + bytes" where
  "file_data_bytes filename filedata =
     (case filedata of
        Bytes b \<Rightarrow> Inr b
      | ByteArray b \<Rightarrow> Inr b
      | BytesIO buf pos \<Rightarrow> Inr buf
      | BufferedReader buf \<Rightarrow> Inr buf
      | Str s \<Rightarrow> Inr (encode_utf16 s)
      | Other ty \<Rightarrow>
          Inl (TypeError (''Unsupported file data type for '' @ filename @ '': '' @ ty)))"

text \<open>
  \<open>models.py\<close> hands the staged value to \<open>hashlib.sha1\<close> directly, which accepts
  bytes-like objects only.
\<close>

definition hashable_bytes :: "filedata \<Rightarrow> exn + bytes" where
  "hashable_bytes filedata =
     (case filedata of
        Bytes b \<Rightarrow> Inr b
      | ByteArray b \<Rightarrow> Inr b
      | Str s \<Rightarrow> Inl (TypeError ''Strings must be encoded before hashing'')
      | _ \<Rightarrow> Inl (TypeError ''object supporting the buffer API required''))"

text \<open>
  The loop over \<open>self._files.items()\<close>; the digests written before a failure stay in
  \<open>_hashes\<close>.
\<close>

fun hash_files ::
  "(string \<Rightarrow> filedata \<Rightarrow> exn + bytes) \<Rightarrow> (string \<times> filedata) list
     \<Rightarrow> (string \<times> string) list \<Rightarrow> exn option \<times> (string \<times> string) list" where
  "hash_files content [] h = (None, h)"
| "hash_files content ((filename, filedata) # rest) h =
     (case content filename filedata of
        Inl e \<Rightarrow> (Some e, h)
      | Inr data \<Rightarrow> hash_files content rest (dict_set filename (sha1_hexdigest data) h))"

definition dumps_hashes :: "(string \<times> string) list \<Rightarrow> string" where
  "dumps_hashes h = json_dumps (PDict (map (\<lambda>kv. (fst kv, PStr (snd kv))) h))"

definition create_manifest_with ::
  "codec \<Rightarrow> (string \<Rightarrow> filedata \<Rightarrow> exn + bytes) \<Rightarrow> ApplePass \<Rightarrow> string
     \<Rightarrow> (exn + string) \<times> ApplePass" where
  "create_manifest_with enc content p pass_json =
     (let h0 = dict_set ''pass.json'' (sha1_hexdigest (encode enc pass_json)) (hashes p)
      in case hash_files content (files p) h0 of
           (Some e, h) \<Rightarrow> (Inl e, p\<lparr>hashes := h\<rparr>)
         | (None, h) \<Rightarrow> (Inr (dumps_hashes h), p\<lparr>hashes := h\<rparr>))"

text \<open>\<open>apple_pass.py\<close>: \<open>pass_json.encode("UTF-16")\<close> and the \<open>isinstance\<close> chain.\<close>

definition create_manifest_ap :: "ApplePass \<Rightarrow> string \<Rightarrow> (exn + string) \<times> ApplePass" where
  "create_manifest_ap = create_manifest_with UTF16 file_data_bytes"

text \<open>\<open>models.py\<close>: \<open>pass_json.encode("utf-8")\<close> and \<open>hashlib.sha1(filedata)\<close>.\<close>

definition create_manifest_m :: "ApplePass \<Rightarrow> string \<Rightarrow> (exn + string) \<times> ApplePass" where
  "create_manifest_m = create_manifest_with UTF8 (\<lambda>filename. hashable_bytes)"

section \<open>The environment: material files, the cryptography library, the destination\<close>

datatype fs_entry = Readable bytes | Unreadable

datatype certificate = Certificate bytes
datatype private_key = PrivateKey bytes
datatype hash_alg = SHA1
datatype encoding = PEM | DER | SMIME
datatype pkcs7_option = Text | Binary | DetachedSignature | NoCapabilities | NoAttributes | NoCerts

text \<open>What \<open>PKCS7SignatureBuilder\<close> has collected when \<open>sign\<close> is called.\<close>

record PKCS7SignatureBuilder =
  sb_data :: "bytes option"
  sb_signers :: "(certificate \<times> private_key \<times> hash_alg) list"
  sb_additional_certs :: "certificate list"

definition new_builder :: PKCS7SignatureBuilder where
  "new_builder = \<lparr>sb_data = None, sb_signers = [], sb_additional_certs = []\<rparr>"

definition set_data :: "bytes \<Rightarrow> PKCS7SignatureBuilder \<Rightarrow> PKCS7SignatureBuilder" where
  "set_data d b = b\<lparr>sb_data := Some d\<rparr>"

definition add_signer ::
  "certificate \<Rightarrow> private_key \<Rightarrow> hash_alg \<Rightarrow> PKCS7SignatureBuilder \<Rightarrow> PKCS7SignatureBuilder" where
  "add_signer c k alg b = b\<lparr>sb_signers := sb_signers b @ [(c, k, alg)]\<rparr>"

definition add_certificate :: "certificate \<Rightarrow> PKCS7SignatureBuilder \<Rightarrow> PKCS7SignatureBuilder" where
  "add_certificate c b = b\<lparr>sb_additional_certs := sb_additional_certs b @ [c]\<rparr>"

text \<open>
  The three entry points of the \<open>cryptography\<close> package the pass class calls. They are
  not part of this repository and are taken as parameters; signing also receives the
  entropy and clock reading of the moment.
\<close>

record crypto =
  load_pem_x509_certificate :: "bytes \<Rightarrow> exn + certificate"
  load_pem_private_key :: "bytes \<Rightarrow> bytes option \<Rightarrow> exn + private_key"
  pkcs7_sign :: "PKCS7SignatureBuilder \<Rightarrow> encoding \<Rightarrow> pkcs7_option list \<Rightarrow> nat \<Rightarrow> exn + bytes"

text \<open>A written archive: its members in write order, and whether it was closed.\<close>

record archive =
  members :: "(string \<times> bytes) list"
  closed :: bool

record world =
  fs :: "string \<Rightarrow> fs_entry option"
  entropy :: nat
  write_error :: "string \<Rightarrow> exn option"
  archives :: "string \<Rightarrow> archive option"

subsection \<open>\<open>_read_file_bytes\<close>\<close>

definition read_file_bytes :: "world \<Rightarrow> string \<Rightarrow> exn + bytes" where
  "read_file_bytes w path =
     (case fs w path of
        None \<Rightarrow> Inl (FileNotFoundError (''File not found: '' @ path))
      | Some Unreadable \<Rightarrow> Inl (PermissionError (''Permission denied: '' @ path))
      | Some (Readable content) \<Rightarrow> Inr content)"

subsection \<open>\<open>_create_signature_crypto\<close>\<close>

record material =
  certificate :: string
  key :: string
  wwdr_certificate :: string
  password :: "string option"

definition create_signature_crypto ::
  "codec \<Rightarrow> crypto \<Rightarrow> world \<Rightarrow> string \<Rightarrow> material \<Rightarrow> exn + bytes" where
  "create_signature_crypto enc lib w manifest m =
     (case read_file_bytes w (certificate m) of
        Inl e \<Rightarrow> Inl e
      | Inr cert_pem \<Rightarrow>
     (case load_pem_x509_certificate lib cert_pem of
        Inl e \<Rightarrow> Inl e
      | Inr cert \<Rightarrow>
     (let pw = map_option (encode enc) (password m)
      in case read_file_bytes w (key m) of
        Inl e \<Rightarrow> Inl e
      | Inr key_pem \<Rightarrow>
     (case load_pem_private_key lib key_pem pw of
        Inl e \<Rightarrow> Inl e
      | Inr priv_key \<Rightarrow>
     (case read_file_bytes w (wwdr_certificate m) of
        Inl e \<Rightarrow> Inl e
      | Inr wwdr_pem \<Rightarrow>
     (case load_pem_x509_certificate lib wwdr_pem of
        Inl e \<Rightarrow> Inl e
      | Inr wwdr_cert \<Rightarrow>
          pkcs7_sign lib
            (add_certificate wwdr_cert
              (add_signer cert priv_key SHA1
                (set_data (encode enc manifest) new_builder)))
            DER [DetachedSignature] (entropy w)))))))"

text \<open>\<open>apple_pass.py\<close> encodes the password and the manifest with \<open>"UTF-16"\<close>.\<close>

definition create_signature_crypto_ap ::
  "crypto \<Rightarrow> world \<Rightarrow> string \<Rightarrow> material \<Rightarrow> exn + bytes" where
  "create_signature_crypto_ap = create_signature_crypto UTF16"

text \<open>\<open>models.py\<close> encodes both with \<open>"UTF-8"\<close>.\<close>

definition create_signature_crypto_m ::
  "crypto \<Rightarrow> world \<Rightarrow> string \<Rightarrow> material \<Rightarrow> exn + bytes" where
  "create_signature_crypto_m = create_signature_crypto UTF8"

subsection \<open>\<open>_create_zip\<close>\<close>

text \<open>\<open>ZipFile.writestr\<close> stores bytes as they are and a \<open>str\<close> encoded as UTF-8.\<close>

definition fixed_members :: "string \<Rightarrow> string \<Rightarrow> bytes \<Rightarrow> (string \<times> bytes) list" where
  "fixed_members pass_json manifest signature =
     [(''signature'', signature),
      (''manifest.json'', encode_utf8 manifest),
      (''pass.json'', encode_utf8 pass_json)]"

text \<open>
  \<open>models.py\<close> hands the staged value to \<open>writestr\<close>, which takes bytes-like
  objects and strings.
\<close>

definition writestr_bytes :: "string \<Rightarrow> filedata \<Rightarrow> exn + bytes" where
  "writestr_bytes filename filedata =
     (case filedata of
        Bytes b \<Rightarrow> Inr b
      | ByteArray b \<Rightarrow> Inr b
      | Str s \<Rightarrow> Inr (encode_utf8 s)
      | _ \<Rightarrow> Inl (TypeError ''a bytes-like object is required''))"

text \<open>The loop over the staged files: the members written, and the error that stopped it.\<close>

fun write_files ::
  "(string \<Rightarrow> filedata \<Rightarrow> exn + bytes) \<Rightarrow> (string \<times> filedata) list
     \<Rightarrow> (string \<times> bytes) list \<times> exn option" where
  "write_files content [] = ([], None)"
| "write_files content ((filename, filedata) # rest) =
     (case content filename filedata of
        Inl e \<Rightarrow> ([], Some e)
      | Inr data \<Rightarrow>
          (case write_files content rest of (ms, r) \<Rightarrow> ((filename, data) # ms, r)))"

text \<open>
  \<open>apple_pass.py\<close>: the archive is opened at the destination path, which truncates it;
  it is closed only when every member was written.
\<close>

definition create_zip_ap ::
  "ApplePass \<Rightarrow> world \<Rightarrow> string \<Rightarrow> string \<Rightarrow> bytes \<Rightarrow> string \<Rightarrow> (exn + unit) \<times> world" where
  "create_zip_ap p w pass_json manifest signature output =
     (case write_error w output of
        Some e \<Rightarrow> (Inl e, w)
      | None \<Rightarrow>
          (case write_files file_data_bytes (files p) of
             (ms, Some e) \<Rightarrow>
               (Inl e, w\<lparr>archives := (archives w)(output \<mapsto>
                  \<lparr>members = fixed_members pass_json manifest signature @ ms,
                   closed = False\<rparr>)\<rparr>)
           | (ms, None) \<Rightarrow>
               (Inr (), w\<lparr>archives := (archives w)(output \<mapsto>
                  \<lparr>members = fixed_members pass_json manifest signature @ ms,
                   closed = True\<rparr>)\<rparr>)))"

text \<open>\<open>models.py\<close>: the archive is written into the in-memory buffer.\<close>

definition create_zip_m :: "ApplePass \<Rightarrow> string \<Rightarrow> string \<Rightarrow> bytes \<Rightarrow> exn + archive" where
  "create_zip_m p pass_json manifest signature =
     (case write_files writestr_bytes (files p) of
        (ms, Some e) \<Rightarrow> Inl e
      | (ms, None) \<Rightarrow>
          Inr \<lparr>members = fixed_members pass_json manifest signature @ ms, closed = True\<rparr>)"

subsection \<open>\<open>create\<close>\<close>

text \<open>The body of the \<open>try\<close> block of \<open>apple_pass.py\<close>.\<close>

definition create_try_ap ::
  "crypto \<Rightarrow> ApplePass \<Rightarrow> world \<Rightarrow> material \<Rightarrow> string \<Rightarrow> (exn + string) \<times> ApplePass \<times> world" where
  "create_try_ap lib p w m pass_path =
     (case create_pass_json_ap p of
        Inl e \<Rightarrow> (Inl e, p, w)
      | Inr pass_json \<Rightarrow>
     (case create_manifest_ap p pass_json of
        (Inl e, p1) \<Rightarrow> (Inl e, p1, w)
      | (Inr manifest, p1) \<Rightarrow>
     (case create_signature_crypto_ap lib w manifest m of
        Inl e \<Rightarrow> (Inl e, p1, w)
      | Inr signature \<Rightarrow>
     (case create_zip_ap p1 w pass_json manifest signature pass_path of
        (Inl e, w1) \<Rightarrow> (Inl e, p1, w1)
      | (Inr u, w1) \<Rightarrow> (Inr pass_path, p1, w1)))))"

text \<open>\<open>except Exception as e: raise PassCreationError(...) from e\<close>\<close>

definition wrap :: "exn \<Rightarrow> pass_creation_error" where
  "wrap e = PassCreationError (''Failed to create pass: '' @ exn_str e) e"

definition create_ap ::
  "crypto \<Rightarrow> ApplePass \<Rightarrow> world \<Rightarrow> material \<Rightarrow> string
     \<Rightarrow> (pass_creation_error + string) \<times> ApplePass \<times> world" where
  "create_ap lib p w m pass_path =
     (case create_try_ap lib p w m pass_path of
        (Inl e, p1, w1) \<Rightarrow> (Inl (wrap e), p1, w1)
      | (Inr r, p1, w1) \<Rightarrow> (Inr r, p1, w1))"

text \<open>The body of the \<open>try\<close> block of \<open>models.py\<close>; the archive is the returned buffer.\<close>

definition create_try_m ::
  "crypto \<Rightarrow> ApplePass \<Rightarrow> world \<Rightarrow> material \<Rightarrow> (exn + archive) \<times> ApplePass" where
  "create_try_m lib p w m =
     (case create_pass_json_m p of
        Inl e \<Rightarrow> (Inl e, p)
      | Inr pass_json \<Rightarrow>
     (case create_manifest_m p pass_json of
        (Inl e, p1) \<Rightarrow> (Inl e, p1)
      | (Inr manifest, p1) \<Rightarrow>
     (case create_signature_crypto_m lib w manifest m of
        Inl e \<Rightarrow> (Inl e, p1)
      | Inr signature \<Rightarrow>
     (case create_zip_m p1 pass_json manifest signature of
        Inl e \<Rightarrow> (Inl e, p1)
      | Inr zip_file \<Rightarrow> (Inr zip_file, p1)))))"

definition create_m ::
  "crypto \<Rightarrow> ApplePass \<Rightarrow> world \<Rightarrow> material \<Rightarrow> (pass_creation_error + archive) \<times> ApplePass" where
  "create_m lib p w m =
     (case create_try_m lib p w m of
        (Inl e, p1) \<Rightarrow> (Inl (wrap e), p1)
      | (Inr r, p1) \<Rightarrow> (Inr r, p1))"

section \<open>Sessions and fixtures\<close>

text \<open>
  A session as the dataclass constructor leaves it when only the documented parameters
  are given: no staged file and no digest.
\<close>

definition fresh :: "ApplePass \<Rightarrow> bool" where
  "fresh p = (files p = [] \<and> hashes p = [])"

text \<open>A minimal generic pass, the one the examples below build.\<close>

definition demo_pass :: ApplePass where
  "demo_pass =
     \<lparr>pass_information = Info \<lparr>kind = Generic, header_fields = [], primary_fields = [],
                                 secondary_fields = [], back_fields = [], auxiliary_fields = []\<rparr>,
      pass_type_identifier = ''pass.com.example'',
      organization_name = ''Example'',
      team_identifier = ''TEAM'',
      serial_number = ''1'',
      description = ''Gate 22'',
      format_version = 1,
      background_color = None, foreground_color = None, label_color = None, logo_text = None,
      barcode = None, barcodes = None, suppress_strip_shine = False,
      web_service_url = None, authentication_token = None,
      locations = None, ibeacons = None, relevant_date = None,
      associated_store_identifiers = None, app_launch_url = None, user_info = None,
      expiration_date = None, voided = None,
      files = [], hashes = []\<rparr>"

text \<open>
  A stand-in for the cryptography package: a PEM file starts with five dashes, a key is
  unprotected, and the signature is the entropy byte followed by the payload.
\<close>

definition demo_pem :: "bytes \<Rightarrow> bool" where
  "demo_pem b = (take 5 b = [45, 45, 45, 45, 45])"

definition demo_lib :: crypto where
  "demo_lib =
     \<lparr>load_pem_x509_certificate =
        (\<lambda>b. if demo_pem b then Inr (Certificate b)
             else Inl (ValueError ''Unable to load PEM file'')),
      load_pem_private_key =
        (\<lambda>b pw. if \<not> demo_pem b then Inl (ValueError ''Could not deserialize key data'')
                else if pw \<noteq> None
                  then Inl (TypeError ''Password was given but private key is not encrypted.'')
                else Inr (PrivateKey b)),
      pkcs7_sign =
        (\<lambda>b enc opts n.
           case sb_data b of
             None \<Rightarrow> Inl (ValueError ''You must add data to sign'')
           | Some d \<Rightarrow> Inr (of_nat n # d))\<rparr>"

definition demo_fs :: "string \<Rightarrow> fs_entry option" where
  "demo_fs path =
     (if path = ''cert.pem'' then Some (Readable [45, 45, 45, 45, 45, 1])
      else if path = ''key.pem'' then Some (Readable [45, 45, 45, 45, 45, 2])
      else if path = ''wwdr.pem'' then Some (Readable [45, 45, 45, 45, 45, 3])
      else if path = ''bad.pem'' then Some (Readable [1, 2, 3])
      else None)"

definition demo_world :: world where
  "demo_world = \<lparr>fs = demo_fs, entropy = 7, write_error = (\<lambda>path. None),
                  archives = (\<lambda>path. None)\<rparr>"

definition demo_material :: material where
  "demo_material = \<lparr>certificate = ''cert.pem'', key = ''key.pem'',
                     wwdr_certificate = ''wwdr.pem'', password = None\<rparr>"

text \<open>A file of malformed PEM in place of the signer certificate.\<close>

definition bad_cert_material :: material where
  "bad_cert_material = \<lparr>certificate = ''bad.pem'', key = ''key.pem'',
                         wwdr_certificate = ''wwdr.pem'', password = None\<rparr>"

text \<open>
  A second stand-in that shows what it was handed: the key it loads is the password
  bytes it received, and the signature is the bytes of the signer's key.
\<close>

definition echo_lib :: crypto where
  "echo_lib =
     \<lparr>load_pem_x509_certificate = (\<lambda>b. Inr (Certificate b)),
      load_pem_private_key =
        (\<lambda>b pw. Inr (PrivateKey (case pw of None \<Rightarrow> [] | Some x \<Rightarrow> x))),
      pkcs7_sign =
        (\<lambda>b enc opts n.
           Inr (concat (map (\<lambda>s. case s of (c, PrivateKey k, alg) \<Rightarrow> k) (sb_signers b))))\<rparr>"

section \<open>Notions the properties are stated with\<close>

text \<open>What \<open>add_file\<close> stores for the value it is handed.\<close>

definition staged :: "filedata \<Rightarrow> filedata" where
  "staged file_data =
     (case file_data of BytesIO buf pos \<Rightarrow> Bytes (drop pos buf) | _ \<Rightarrow> file_data)"

text \<open>The entries of a dictionary, or the members of an archive, under one name.\<close>

definition named :: "string \<Rightarrow> (string \<times> 'a) list \<Rightarrow> (string \<times> 'a) list" where
  "named n kvs = filter (\<lambda>kv. fst kv = n) kvs"

text \<open>The member names every archive carries whatever is staged.\<close>

definition fixed_names :: "string list" where
  "fixed_names = [''signature'', ''manifest.json'', ''pass.json'']"



text \<open>
  The sessions the public interface produces: the constructor with its documented
  parameters, \<open>add_file\<close>, assignments to the document fields, and \<open>create\<close> of either
  variant.
\<close>

inductive session :: "ApplePass \<Rightarrow> bool" where
  constructed: "fresh p \<Longrightarrow> session p"
| file_added: "session p \<Longrightarrow> session (add_file name file_data p)"
| field_assigned: "session p \<Longrightarrow> files q = files p \<Longrightarrow> hashes q = hashes p \<Longrightarrow> session q"
| created_ap: "session p \<Longrightarrow> session (fst (snd (create_ap lib p w m pass_path)))"
| created_m: "session p \<Longrightarrow> session (snd (create_m lib p w m))"

text \<open>A stage of \<open>create\<close> in \<open>apple_pass.py\<close> raises \<open>e\<close>.\<close>

definition stage_raises ::
  "crypto \<Rightarrow> ApplePass \<Rightarrow> world \<Rightarrow> material \<Rightarrow> string \<Rightarrow> exn \<Rightarrow> bool" where
  "stage_raises lib p w m pass_path e =
     (create_pass_json_ap p = Inl e
      \<or> (\<exists>pass_json. create_pass_json_ap p = Inr pass_json
            \<and> (fst (create_manifest_ap p pass_json) = Inl e
               \<or> (\<exists>manifest. fst (create_manifest_ap p pass_json) = Inr manifest
                     \<and> (create_signature_crypto_ap lib w manifest m = Inl e
                        \<or> (\<exists>signature.
                              create_signature_crypto_ap lib w manifest m = Inr signature
                              \<and> fst (create_zip_ap (snd (create_manifest_ap p pass_json)) w
                                       pass_json manifest signature pass_path) = Inl e))))))"

text \<open>
  The staged files and the digests are dictionaries, and no digest is recorded for a name
  that is neither \<open>pass.json\<close> nor a staged file.
\<close>

definition covered :: "ApplePass \<Rightarrow> bool" where
  "covered p = (distinct (map fst (files p)) \<and> distinct (map fst (hashes p))
      \<and> fst ` set (hashes p) \<subseteq> insert ''pass.json'' (fst ` set (files p)))"

text \<open>Sessions the examples run on.\<close>

definition icon_pass :: ApplePass where
  "icon_pass = add_file ''icon.png'' (Bytes [1, 2, 3, 4, 5, 6, 7, 8, 9, 10]) demo_pass"





definition secret_material :: material where
  "secret_material = \<lparr>certificate = ''cert.pem'', key = ''key.pem'',
                       wwdr_certificate = ''wwdr.pem'', password = Some ''a''\<rparr>"

section \<open>Evaluation rules\<close>

lemmas json_eval =
  json_string_def escape_char_def hex4_def hex_digit_def hex_chars_def int_str_def
  nat_str.simps dict_update_def dict_set_def Let_def opt_str_def opt_list_def

lemmas pass_eval =
  create_pass_json_ap_def create_pass_json_m_def json_dict_ap_def json_dict_m_def
  json_dict_with_def json_dict_head_def json_dict_tail_def optional_fields_def
  PassInformation_json_dict_def field_section_def Field_json_dict_def
  barcode_block_ap_def barcode_block_m_def Barcode_getattr_def Barcode_json_dict_def
  Barcode_init_def in_original_formats_def original_formats_def no_attribute_def

lemmas build_eval =
  create_ap_def create_try_ap_def create_m_def create_try_m_def wrap_def
  create_manifest_ap_def create_manifest_m_def create_manifest_with_def dumps_hashes_def
  file_data_bytes_def hashable_bytes_def writestr_bytes_def
  create_signature_crypto_ap_def create_signature_crypto_m_def create_signature_crypto_def
  read_file_bytes_def new_builder_def set_data_def add_signer_def add_certificate_def
  create_zip_ap_def create_zip_m_def fixed_members_def add_file_def

lemmas demo_eval =
  demo_pass_def demo_lib_def demo_pem_def demo_fs_def demo_world_def demo_material_def
  bad_cert_material_def

section \<open>Encodings and digests\<close>

lemma utf8_char_hd: "utf8_char c \<noteq> [] \<and> hd (utf8_char c) \<noteq> 0xFF"
proof -
  let ?n = "of_char c :: nat"
  have un: "unat (of_nat k :: byte) = k mod 256" for k
    by (simp add: unat_of_nat)
  have lt: "?n < 256" by (rule of_char_mod_256 [where ?'a = nat, THEN subst]) simp
  show ?thesis
  proof (cases "?n < 128")
    case True
    then have "unat (of_nat ?n :: byte) = ?n" by (simp add: unat_of_nat)
    with True have "(of_nat ?n :: byte) \<noteq> 0xFF" by auto
    with True show ?thesis by (simp add: utf8_char_def Let_def)
  next
    case False
    have "192 + ?n div 64 < 256" using lt by arith
    then have "unat (of_nat (192 + ?n div 64) :: byte) = 192 + ?n div 64"
      by (simp only: un mod_less)
    moreover have "192 + ?n div 64 \<noteq> 255" using lt by arith
    ultimately have "(of_nat (192 + ?n div 64) :: byte) \<noteq> 0xFF" by auto
    with False show ?thesis by (simp add: utf8_char_def Let_def)
  qed
qed

lemma encode_utf8_hd: "encode_utf8 s \<noteq> 0xFF # bs"
proof (cases s)
  case Nil
  then show ?thesis by (simp add: encode_utf8_def)
next
  case (Cons c cs)
  obtain x xs where u: "utf8_char c = x # xs" and x: "x \<noteq> 0xFF"
    using utf8_char_hd [of c] by (cases "utf8_char c") auto
  with Cons show ?thesis by (simp add: encode_utf8_def)
qed

lemma utf16_neq_utf8: "encode_utf16 s \<noteq> encode_utf8 s"
  using encode_utf8_hd [of s "0xFE # concat (map utf16_char s)"]
  by (simp add: encode_utf16_def)







subsection \<open>Dictionaries\<close>

lemma dict_set_keys:
  "fst ` set (dict_set k v d) = insert k (fst ` set d)"
  by (simp add: dict_set_def dom_update)

lemma dict_set_distinct:
  "distinct (map fst d) \<Longrightarrow> distinct (map fst (dict_set k v d))"
  by (simp add: dict_set_def distinct_update)

lemma dict_set_map_of: "map_of (dict_set k v d) = (map_of d)(k \<mapsto> v)"
  by (simp add: dict_set_def update_conv')

lemma dict_set_present_keys:
  "k \<in> fst ` set d \<Longrightarrow> map fst (dict_set k v d) = map fst d"
  by (simp add: dict_set_def update_keys)

lemma named_distinct:
  "distinct (map fst d) \<Longrightarrow> map_of d k = Some v \<Longrightarrow> named k d = [(k, v)]"
proof (induction d)
  case Nil
  then show ?case by simp
next
  case (Cons a d)
  obtain k' v' where a: "a = (k', v')" by (cases a)
  show ?case
  proof (cases "k' = k")
    case True
    with Cons.prems a have "v' = v" and "k \<notin> fst ` set d" by auto
    then have "filter (\<lambda>kv. fst kv = k) d = []"
      by (auto simp: filter_empty_conv)
    with True a \<open>v' = v\<close> show ?thesis by (simp add: named_def)
  next
    case False
    with Cons a show ?thesis by (simp add: named_def)
  qed
qed

subsection \<open>The digest loop\<close>

lemma hash_files_keys:
  "hash_files c fl h = (r, h')
     \<Longrightarrow> fst ` set h \<subseteq> fst ` set h' \<and> fst ` set h' \<subseteq> fst ` set h \<union> fst ` set fl
         \<and> (r = None \<longrightarrow> fst ` set h' = fst ` set h \<union> fst ` set fl)"
proof (induction fl arbitrary: h)
  case Nil
  then show ?case by auto
next
  case (Cons a fl)
  obtain fn fd where a: "a = (fn, fd)" by (cases a)
  show ?case
  proof (cases "c fn fd")
    case (Inl e)
    with Cons.prems a show ?thesis by auto
  next
    case (Inr data)
    with Cons.prems a
    have "hash_files c fl (dict_set fn (sha1_hexdigest data) h) = (r, h')" by simp
    from Cons.IH [OF this] a show ?thesis by (auto simp: dict_set_keys)
  qed
qed

lemma hash_files_distinct:
  "hash_files c fl h = (r, h') \<Longrightarrow> distinct (map fst h) \<Longrightarrow> distinct (map fst h')"
proof (induction fl arbitrary: h)
  case Nil
  then show ?case by auto
next
  case (Cons a fl)
  obtain fn fd where a: "a = (fn, fd)" by (cases a)
  show ?case
  proof (cases "c fn fd")
    case (Inl e)
    with Cons.prems a show ?thesis by auto
  next
    case (Inr data)
    with Cons.prems a
    have "hash_files c fl (dict_set fn (sha1_hexdigest data) h) = (r, h')" by simp
    from Cons.IH [OF this] Cons.prems(2) show ?thesis by (simp add: dict_set_distinct)
  qed
qed

lemma hash_files_other:
  "hash_files c fl h = (r, h') \<Longrightarrow> k \<notin> fst ` set fl \<Longrightarrow> map_of h' k = map_of h k"
proof (induction fl arbitrary: h)
  case Nil
  then show ?case by auto
next
  case (Cons a fl)
  obtain fn fd where a: "a = (fn, fd)" by (cases a)
  show ?case
  proof (cases "c fn fd")
    case (Inl e)
    with Cons.prems a show ?thesis by auto
  next
    case (Inr data)
    with Cons.prems a
    have "hash_files c fl (dict_set fn (sha1_hexdigest data) h) = (r, h')" by simp
    from Cons.IH [OF this] Cons.prems(2) a show ?thesis by (simp add: dict_set_map_of)
  qed
qed

lemma hash_files_digest:
  "hash_files c fl h = (None, h') \<Longrightarrow> (k, fd) \<in> set fl \<Longrightarrow> distinct (map fst fl)
     \<Longrightarrow> \<exists>data. c k fd = Inr data \<and> map_of h' k = Some (sha1_hexdigest data)"
proof (induction fl arbitrary: h)
  case Nil
  then show ?case by auto
next
  case (Cons a fl)
  obtain fn fd' where a: "a = (fn, fd')" by (cases a)
  show ?case
  proof (cases "c fn fd'")
    case (Inl e)
    with Cons.prems a show ?thesis by auto
  next
    case (Inr data)
    with Cons.prems a
    have rec: "hash_files c fl (dict_set fn (sha1_hexdigest data) h) = (None, h')" by simp
    show ?thesis
    proof (cases "(k, fd) = a")
      case True
      with a Cons.prems(3) have "k \<notin> fst ` set fl" by auto
      from hash_files_other [OF rec this] True a Inr show ?thesis
        by (simp add: dict_set_map_of)
    next
      case False
      with Cons.prems(2) have "(k, fd) \<in> set fl" by simp
      from Cons.IH [OF rec this] Cons.prems(3) show ?thesis by simp
    qed
  qed
qed


subsection \<open>What a build leaves in the session\<close>

lemma create_manifest_with_state:
  "\<exists>r h. hash_files c (files p)
            (dict_set ''pass.json'' (sha1_hexdigest (encode enc pj)) (hashes p)) = (r, h)
         \<and> snd (create_manifest_with enc c p pj) = p\<lparr>hashes := h\<rparr>
         \<and> (case r of None \<Rightarrow> fst (create_manifest_with enc c p pj) = Inr (dumps_hashes h)
             | Some e \<Rightarrow> fst (create_manifest_with enc c p pj) = Inl e)"
  by (cases "hash_files c (files p)
               (dict_set ''pass.json'' (sha1_hexdigest (encode enc pj)) (hashes p))")
     (auto simp: create_manifest_with_def Let_def split: option.splits)

lemma create_ap_state:
  "fst (snd (create_ap lib p w m path)) = p
     \<or> (\<exists>pj. fst (snd (create_ap lib p w m path)) = snd (create_manifest_ap p pj))"
  unfolding create_ap_def create_try_ap_def
  by (auto split: sum.splits prod.splits) (metis snd_conv)+

lemma create_m_state:
  "snd (create_m lib p w m) = p
     \<or> (\<exists>pj. snd (create_m lib p w m) = snd (create_manifest_m p pj))"
  unfolding create_m_def create_try_m_def
  by (auto split: sum.splits prod.splits) (metis snd_conv)+

lemma covered_manifest: "covered p \<Longrightarrow> covered (snd (create_manifest_with enc c p pj))"
proof -
  assume cov: "covered p"
  obtain r h where
    hf: "hash_files c (files p)
           (dict_set ''pass.json'' (sha1_hexdigest (encode enc pj)) (hashes p)) = (r, h)"
    and st: "snd (create_manifest_with enc c p pj) = p\<lparr>hashes := h\<rparr>"
    using create_manifest_with_state [of c p enc pj] by blast
  from hash_files_distinct [OF hf] cov have "distinct (map fst h)"
    by (simp add: covered_def dict_set_distinct)
  moreover have "fst ` set h \<subseteq> insert ''pass.json'' (fst ` set (files p))"
  proof -
    from hash_files_keys [OF hf]
    have "fst ` set h \<subseteq> insert ''pass.json'' (fst ` set (hashes p)) \<union> fst ` set (files p)"
      by (simp add: dict_set_keys)
    moreover from cov
    have "fst ` set (hashes p) \<subseteq> insert ''pass.json'' (fst ` set (files p))"
      by (simp add: covered_def)
    ultimately show ?thesis by blast
  qed
  ultimately show ?thesis using cov st by (simp add: covered_def)
qed

lemma files_add_file: "files (add_file n fd p) = dict_set n (staged fd) (files p)"
  by (cases fd) (simp_all add: add_file_def staged_def)

lemma hashes_add_file: "hashes (add_file n fd p) = hashes p"
  by (cases fd) (simp_all add: add_file_def)

lemma session_covered: "session p \<Longrightarrow> covered p"
proof (induction rule: session.induct)
  case (constructed p)
  then show ?case by (simp add: fresh_def covered_def)
next
  case (file_added p name file_data)
  then show ?case
    by (auto simp: covered_def files_add_file hashes_add_file dict_set_distinct dict_set_keys)
next
  case (field_assigned p q)
  then show ?case by (simp add: covered_def)
next
  case (created_ap p lib w m pass_path)
  then show ?case
    using create_ap_state [of lib p w m pass_path]
    by (auto simp: create_manifest_ap_def covered_manifest)
next
  case (created_m p lib w m)
  then show ?case
    using create_m_state [of lib p w m]
    by (auto simp: create_manifest_m_def covered_manifest)
qed

subsection \<open>Building the manifest again\<close>

lemma alist_eqI:
  "map fst xs = map fst ys \<Longrightarrow> map_of xs = map_of ys \<Longrightarrow> distinct (map fst xs) \<Longrightarrow> xs = ys"
proof (induction xs arbitrary: ys)
  case Nil
  then show ?case by simp
next
  case (Cons x xs)
  then obtain y ys' where ys: "ys = y # ys'" by (cases ys) auto
  obtain k v where x: "x = (k, v)" by (cases x)
  obtain k' v' where y: "y = (k', v')" by (cases y)
  from Cons.prems(1) ys x y have kk: "k' = k" and keys: "map fst xs = map fst ys'" by auto
  have "map_of (x # xs) k = map_of ys k" using Cons.prems(2) by (rule fun_cong)
  with ys x y kk have vv: "v' = v" by simp
  from Cons.prems(3) x have notin: "k \<notin> fst ` set xs" and dist: "distinct (map fst xs)" by auto
  have "map_of xs = map_of ys'"
  proof
    fix a
    show "map_of xs a = map_of ys' a"
    proof (cases "a = k")
      case True
      from notin have "map_of xs k = None" by (simp add: map_of_eq_None_iff)
      moreover from notin keys have "k \<notin> fst ` set ys'"
        by (metis image_set)
      then have "map_of ys' k = None" by (simp add: map_of_eq_None_iff)
      ultimately show ?thesis using True by simp
    next
      case False
      have "map_of (x # xs) a = map_of ys a" using Cons.prems(2) by (rule fun_cong)
      with False ys x y kk show ?thesis by simp
    qed
  qed
  from Cons.IH [OF keys this dist] ys x y kk vv show ?case by simp
qed

lemma fold_set_keys_present:
  "fst ` set us \<subseteq> fst ` set g
     \<Longrightarrow> map fst (fold (\<lambda>kv. dict_set (fst kv) (snd kv)) us g) = map fst g"
proof (induction us arbitrary: g)
  case Nil
  then show ?case by simp
next
  case (Cons u us)
  from Cons.prems have u: "fst u \<in> fst ` set g" by simp
  then have k: "map fst (dict_set (fst u) (snd u) g) = map fst g"
    by (rule dict_set_present_keys)
  from Cons.prems have "fst ` set us \<subseteq> fst ` set (dict_set (fst u) (snd u) g)"
    by (auto simp: dict_set_keys)
  from Cons.IH [OF this] k show ?case by simp
qed

lemma fold_set_keys:
  "fst ` set (fold (\<lambda>kv. dict_set (fst kv) (snd kv)) us g) = fst ` set g \<union> fst ` set us"
  by (induction us arbitrary: g) (auto simp: dict_set_keys)

lemma fold_set_distinct:
  "distinct (map fst g) \<Longrightarrow> distinct (map fst (fold (\<lambda>kv. dict_set (fst kv) (snd kv)) us g))"
  by (induction us arbitrary: g) (auto simp: dict_set_distinct)

lemma fold_set_map_of:
  "map_of (fold (\<lambda>kv. dict_set (fst kv) (snd kv)) us g) = map_of g ++ map_of (rev us)"
proof (induction us arbitrary: g)
  case Nil
  then show ?case by simp
next
  case (Cons u us)
  have "fold (\<lambda>kv. dict_set (fst kv) (snd kv)) (u # us) g
          = fold (\<lambda>kv. dict_set (fst kv) (snd kv)) us (dict_set (fst u) (snd u) g)"
    by simp
  then have "map_of (fold (\<lambda>kv. dict_set (fst kv) (snd kv)) (u # us) g)
          = map_of (dict_set (fst u) (snd u) g) ++ map_of (rev us)"
    by (simp only: Cons.IH)
  also have "\<dots> = map_of g ++ map_of (rev (u # us))"
    by (cases u, rule ext) (simp add: dict_set_map_of map_add_def split: option.splits)
  finally show ?case .
qed

lemma fold_set_idem:
  assumes "distinct (map fst g)"
  shows "fold (\<lambda>kv. dict_set (fst kv) (snd kv)) us (fold (\<lambda>kv. dict_set (fst kv) (snd kv)) us g)
           = fold (\<lambda>kv. dict_set (fst kv) (snd kv)) us g"
proof (rule alist_eqI)
  let ?F = "fold (\<lambda>kv. dict_set (fst kv) (snd kv)) us"
  show "map fst (?F (?F g)) = map fst (?F g)"
    by (rule fold_set_keys_present) (simp add: fold_set_keys)
  show "map_of (?F (?F g)) = map_of (?F g)"
    by (rule ext) (simp add: fold_set_map_of map_add_def split: option.splits)
  show "distinct (map fst (?F (?F g)))"
    by (intro fold_set_distinct assms)
qed

lemma hash_files_fold:
  "hash_files c fl h = (None, h')
     \<Longrightarrow> \<exists>ds. \<forall>g. hash_files c fl g = (None, fold (\<lambda>kv. dict_set (fst kv) (snd kv)) ds g)"
proof (induction fl arbitrary: h)
  case Nil
  have "\<forall>g. hash_files c [] g = (None, fold (\<lambda>kv. dict_set (fst kv) (snd kv)) [] g)" by simp
  then show ?case by blast
next
  case (Cons a fl)
  obtain fn fd where a: "a = (fn, fd)" by (cases a)
  show ?case
  proof (cases "c fn fd")
    case (Inl e)
    with Cons.prems a show ?thesis by auto
  next
    case (Inr data)
    with Cons.prems a
    have "hash_files c fl (dict_set fn (sha1_hexdigest data) h) = (None, h')" by simp
    from Cons.IH [OF this] obtain ds where
      ds: "\<forall>g. hash_files c fl g = (None, fold (\<lambda>kv. dict_set (fst kv) (snd kv)) ds g)" by blast
    have "\<forall>g. hash_files c (a # fl) g
            = (None, fold (\<lambda>kv. dict_set (fst kv) (snd kv)) ((fn, sha1_hexdigest data) # ds) g)"
      using a Inr ds by simp
    then show ?thesis by blast
  qed
qed

lemma create_manifest_with_rerun:
  assumes "distinct (map fst (hashes p))"
      and "create_manifest_with enc c p pj = (Inr manifest, p1)"
  shows "create_manifest_with enc c p1 pj = (Inr manifest, p1)"
proof -
  let ?d = "sha1_hexdigest (encode enc pj)"
  let ?upd = "\<lambda>kv. dict_set (fst kv) (snd kv)"
  obtain r h where hf: "hash_files c (files p) (dict_set ''pass.json'' ?d (hashes p)) = (r, h)"
    and st: "snd (create_manifest_with enc c p pj) = p\<lparr>hashes := h\<rparr>"
    and res: "case r of None \<Rightarrow> fst (create_manifest_with enc c p pj) = Inr (dumps_hashes h)
              | Some e \<Rightarrow> fst (create_manifest_with enc c p pj) = Inl e"
    using create_manifest_with_state [of c p enc pj] by blast
  from res assms(2) have r: "r = None" by (cases r) auto
  with res assms(2) have man: "manifest = dumps_hashes h" by simp
  from st assms(2) have p1: "p1 = p\<lparr>hashes := h\<rparr>" by simp
  from hash_files_fold [OF hf [unfolded r]] obtain ds where
    ds: "\<And>g. hash_files c (files p) g = (None, fold ?upd ds g)" by blast
  from hf r ds have h: "h = fold ?upd ((''pass.json'', ?d) # ds) (hashes p)" by simp
  have "hash_files c (files p) (dict_set ''pass.json'' ?d h)
          = (None, fold ?upd ((''pass.json'', ?d) # ds) h)"
    by (simp add: ds)
  also have "fold ?upd ((''pass.json'', ?d) # ds) h = h"
    unfolding h by (rule fold_set_idem [OF assms(1)])
  finally show ?thesis
    using p1 man by (simp add: create_manifest_with_def)
qed

section \<open>What a successful build did\<close>

lemma create_m_success:
  assumes "create_m lib p w m = (Inr a, p1)"
  shows "\<exists>pj manifest sg ms.
           create_pass_json_m p = Inr pj
         \<and> create_manifest_m p pj = (Inr manifest, p1)
         \<and> create_signature_crypto_m lib w manifest m = Inr sg
         \<and> write_files writestr_bytes (files p1) = (ms, None)
         \<and> a = \<lparr>members = fixed_members pj manifest sg @ ms, closed = True\<rparr>"
  using assms
  unfolding create_m_def create_try_m_def create_zip_m_def
  by (auto split: sum.splits prod.splits option.splits)

lemma json_dict_head_ignores_hashes:
  "json_dict_head (p\<lparr>hashes := h\<rparr>) = json_dict_head p"
  by (simp add: json_dict_head_def split: sum.splits)

lemma json_dict_tail_ignores_hashes:
  "json_dict_tail (p\<lparr>hashes := h\<rparr>) d = json_dict_tail p d"
proof -
  have "optional_fields (p\<lparr>hashes := h\<rparr>) = optional_fields p"
    by (simp add: optional_fields_def)
  then show ?thesis
    by (simp add: json_dict_tail_def Let_def split: option.splits)
qed

lemma json_dict_ignores_hashes:
  "json_dict_with blk (p\<lparr>hashes := h\<rparr>) = json_dict_with blk p"
  by (simp add: json_dict_with_def json_dict_head_ignores_hashes
        json_dict_tail_ignores_hashes split: sum.splits option.splits)

lemma create_pass_json_m_ignores_hashes:
  "create_pass_json_m (p\<lparr>hashes := h\<rparr>) = create_pass_json_m p"
  by (simp add: create_pass_json_m_def json_dict_m_def json_dict_ignores_hashes)

lemma create_manifest_with_result:
  "create_manifest_with enc c p pj = (r, p1) \<Longrightarrow> \<exists>h. p1 = p\<lparr>hashes := h\<rparr>"
  using create_manifest_with_state [of c p enc pj] by auto

lemma create_ap_success:
  assumes "create_ap lib p w m path = (Inr r, p1, w1)"
  shows "\<exists>pj manifest sg ms.
           create_pass_json_ap p = Inr pj
         \<and> create_manifest_ap p pj = (Inr manifest, p1)
         \<and> create_signature_crypto_ap lib w manifest m = Inr sg
         \<and> write_files file_data_bytes (files p1) = (ms, None)
         \<and> w1 = w\<lparr>archives := (archives w)(path \<mapsto>
                   \<lparr>members = fixed_members pj manifest sg @ ms, closed = True\<rparr>)\<rparr>
         \<and> r = path"
  using assms
  unfolding create_ap_def create_try_ap_def create_zip_ap_def
  by (auto split: sum.splits prod.splits option.splits)

lemma create_signature_crypto_success:
  assumes "create_signature_crypto enc lib w manifest m = Inr sg"
  shows "\<exists>cert_pem cert key_pem priv_key wwdr_pem wwdr_cert.
           read_file_bytes w (certificate m) = Inr cert_pem
         \<and> load_pem_x509_certificate lib cert_pem = Inr cert
         \<and> read_file_bytes w (key m) = Inr key_pem
         \<and> load_pem_private_key lib key_pem (map_option (encode enc) (password m)) = Inr priv_key
         \<and> read_file_bytes w (wwdr_certificate m) = Inr wwdr_pem
         \<and> load_pem_x509_certificate lib wwdr_pem = Inr wwdr_cert
         \<and> pkcs7_sign lib
               \<lparr>sb_data = Some (encode enc manifest),
                sb_signers = [(cert, priv_key, SHA1)],
                sb_additional_certs = [wwdr_cert]\<rparr>
               DER [DetachedSignature] (entropy w) = Inr sg"
  using assms
  unfolding create_signature_crypto_def
  by (auto simp: Let_def new_builder_def set_data_def add_signer_def add_certificate_def
           split: sum.splits)

lemma manifest_pass_json_digest:
  assumes "create_manifest_with enc c p pj = (Inr manifest, p1)"
      and "''pass.json'' \<notin> fst ` set (files p)"
  shows "map_of (hashes p1) ''pass.json'' = Some (sha1_hexdigest (encode enc pj))"
proof -
  obtain r h where
    hf: "hash_files c (files p)
           (dict_set ''pass.json'' (sha1_hexdigest (encode enc pj)) (hashes p)) = (r, h)"
    and st: "snd (create_manifest_with enc c p pj) = p\<lparr>hashes := h\<rparr>"
    using create_manifest_with_state [of c p enc pj] by blast
  from st assms(1) have "hashes p1 = h" by auto
  with hash_files_other [OF hf assms(2)] show ?thesis by (simp add: dict_set_map_of)
qed

subsection \<open>Members written for the staged files\<close>

lemma named_absent: "n \<notin> fst ` set kvs \<Longrightarrow> named n kvs = []"
  by (auto simp: named_def filter_empty_conv)

lemma write_files_named_none:
  "write_files c fl = (ms, r) \<Longrightarrow> named n fl = [] \<Longrightarrow> named n ms = []"
proof (induction fl arbitrary: ms r)
  case Nil
  then show ?case by (simp add: named_def)
next
  case (Cons a fl)
  obtain fn fd where a: "a = (fn, fd)" by (cases a)
  from Cons.prems(2) a have ne: "fn \<noteq> n" and rest: "named n fl = []"
    by (auto simp: named_def split: if_splits)
  show ?case
  proof (cases "c fn fd")
    case (Inl e)
    with Cons.prems(1) a show ?thesis by (simp add: named_def)
  next
    case (Inr data)
    obtain ms' r' where w: "write_files c fl = (ms', r')" by (cases "write_files c fl")
    from Cons.IH [OF w rest] Cons.prems(1) a Inr w ne show ?thesis
      by (auto simp: named_def)
  qed
qed

lemma write_files_named:
  "write_files c fl = (ms, None) \<Longrightarrow> named n fl = [(n, v)]
     \<Longrightarrow> \<exists>data. c n v = Inr data \<and> named n ms = [(n, data)]"
proof (induction fl arbitrary: ms)
  case Nil
  then show ?case by (simp add: named_def)
next
  case (Cons a fl)
  obtain fn fd where a: "a = (fn, fd)" by (cases a)
  show ?case
  proof (cases "c fn fd")
    case (Inl e)
    with Cons.prems(1) a show ?thesis by simp
  next
    case (Inr data)
    obtain ms' r' where w: "write_files c fl = (ms', r')" by (cases "write_files c fl")
    with Cons.prems(1) a Inr have r': "r' = None" and ms: "ms = (fn, data) # ms'" by auto
    show ?thesis
    proof (cases "fn = n")
      case True
      with Cons.prems(2) a have v: "fd = v" and rest: "named n fl = []"
        by (auto simp: named_def)
      from write_files_named_none [OF w rest] have "named n ms' = []" .
      with True v Inr ms show ?thesis by (simp add: named_def)
    next
      case False
      with Cons.prems(2) a have rest: "named n fl = [(n, v)]" by (simp add: named_def)
      from Cons.IH [OF w [unfolded r'] rest] False ms show ?thesis by (simp add: named_def)
    qed
  qed
qed

lemma named_fixed_members:
  "n \<notin> set fixed_names \<Longrightarrow> named n (fixed_members pj manifest sg) = []"
  by (auto simp: fixed_names_def fixed_members_def named_def)

section \<open>Evaluating encodings and digests\<close>

lemmas codec_eval =
  encode_utf8_def utf8_char_def encode_utf16_def utf16_char_def

lemma replicate_numeral_eval: "replicate (numeral k) x = x # replicate (pred_numeral k) x"
  by (simp add: numeral_eq_Suc)

lemmas block_eval =
  sha1_block_def schedule_def schedule_step_def rotl32_def add32_def not32_def
  sha1_f_def sha1_k_def

lemmas digest_eval =
  word_bytes_def hexdigest_def hex_byte_def hex_digit_def hex_chars_def

section \<open>Error handling of \<open>create\<close>\<close>

lemma create_failure_is_stage_failure:
  assumes "fst (create_ap lib p w m pass_path) = Inl err"
  shows "\<exists>e. stage_raises lib p w m pass_path e
             \<and> err = PassCreationError (''Failed to create pass: '' @ exn_str e) e"
  using assms
  unfolding stage_raises_def create_ap_def create_try_ap_def wrap_def
  by (auto split: sum.splits prod.splits)

text \<open>
  Claim C9. Whatever stage of \<open>create\<close> raises (serialising the document, building
  the manifest, loading the material and signing, writing the archive), the caller
  receives one \<open>PassCreationError\<close> whose cause is the exception that stage raised.
\<close>

theorem create_wraps_stage_failure:
  assumes "stage_raises lib p w m pass_path e"
  shows "fst (create_ap lib p w m pass_path)
           = Inl (PassCreationError (''Failed to create pass: '' @ exn_str e) e)"
  using assms
  unfolding stage_raises_def create_ap_def create_try_ap_def wrap_def
  by (auto split: sum.splits prod.splits)

theorem create_wraps_stage_failure_witness:
  "stage_raises demo_lib demo_pass demo_world bad_cert_material ''pass.pkpass''
     (ValueError ''Unable to load PEM file'')
   \<and> fst (create_ap demo_lib demo_pass demo_world bad_cert_material ''pass.pkpass'')
       = Inl (PassCreationError ''Failed to create pass: Unable to load PEM file''
                (ValueError ''Unable to load PEM file''))"
proof -
  have h: "stage_raises demo_lib demo_pass demo_world bad_cert_material ''pass.pkpass''
             (ValueError ''Unable to load PEM file'')"
    by (simp add: stage_raises_def build_eval pass_eval json_eval demo_eval)
  show ?thesis using h create_wraps_stage_failure [OF h] by simp
qed




text \<open>
  Claim C4, as stated, fails: with a certificate file of malformed PEM the build does
  fail, but the manifest has been built by then. The session starts with no digest and
  ends with the digest of \<open>pass.json\<close> recorded.
\<close>

theorem malformed_certificate_counterexample:
  "fst (create_ap demo_lib demo_pass demo_world bad_cert_material ''pass.pkpass'')
     = Inl (PassCreationError ''Failed to create pass: Unable to load PEM file''
              (ValueError ''Unable to load PEM file''))
   \<and> hashes demo_pass = []
   \<and> map fst (hashes (fst (snd
         (create_ap demo_lib demo_pass demo_world bad_cert_material ''pass.pkpass''))))
       = [''pass.json'']"
  by (simp add: build_eval pass_eval json_eval demo_eval)

text \<open>
  Claim C4, amended. When the document serialises, the manifest is built and the
  certificate file holds malformed PEM, \<open>create\<close> fails with a \<open>PassCreationError\<close>
  whose cause is the loader's error. The manifest exists by then and its digests stay in
  the session; the environment is left as it was, so no archive is written, and the
  outcome does not depend on the key, the trust anchor or the signing routine.
\<close>

theorem malformed_certificate_aborts_after_manifest:
  assumes "create_pass_json_ap p = Inr pass_json"
      and "create_manifest_ap p pass_json = (Inr manifest, p1)"
      and "read_file_bytes w (certificate m) = Inr pem"
      and "load_pem_x509_certificate lib pem = Inl e"
  shows "create_ap lib p w m pass_path
           = (Inl (PassCreationError (''Failed to create pass: '' @ exn_str e) e), p1, w)
       \<and> ''pass.json'' \<in> fst ` set (hashes p1)"
proof -
  have sg: "create_signature_crypto_ap lib w manifest m = Inl e"
    using assms(3,4) by (simp add: create_signature_crypto_ap_def create_signature_crypto_def)
  obtain r h where
    hf: "hash_files file_data_bytes (files p)
           (dict_set ''pass.json'' (sha1_hexdigest (encode UTF16 pass_json)) (hashes p)) = (r, h)"
    and st: "snd (create_manifest_with UTF16 file_data_bytes p pass_json) = p\<lparr>hashes := h\<rparr>"
    using create_manifest_with_state [of file_data_bytes p UTF16 pass_json] by blast
  from st assms(2) have "hashes p1 = h" by (auto simp: create_manifest_ap_def)
  moreover from hash_files_keys [OF hf] have "''pass.json'' \<in> fst ` set h"
    by (auto simp: dict_set_keys)
  ultimately have "''pass.json'' \<in> fst ` set (hashes p1)" by simp
  then show ?thesis
    using assms(1,2) sg by (simp add: create_ap_def create_try_ap_def wrap_def)
qed

theorem malformed_certificate_aborts_after_manifest_witness:
  "(\<exists>pass_json manifest p1.
      create_pass_json_ap demo_pass = Inr pass_json
      \<and> create_manifest_ap demo_pass pass_json = (Inr manifest, p1))
   \<and> read_file_bytes demo_world (certificate bad_cert_material) = Inr [1, 2, 3]
   \<and> load_pem_x509_certificate demo_lib [1, 2, 3] = Inl (ValueError ''Unable to load PEM file'')
   \<and> fst (create_ap demo_lib demo_pass demo_world bad_cert_material ''pass.pkpass'')
       = Inl (PassCreationError ''Failed to create pass: Unable to load PEM file''
                (ValueError ''Unable to load PEM file''))
   \<and> archives (snd (snd (create_ap demo_lib demo_pass demo_world bad_cert_material
                              ''pass.pkpass''))) = archives demo_world"
proof -
  obtain pass_json where j: "create_pass_json_ap demo_pass = Inr pass_json"
    by (simp add: pass_eval json_eval demo_pass_def)
  obtain manifest p1 where mf: "create_manifest_ap demo_pass pass_json = (Inr manifest, p1)"
    by (simp add: create_manifest_ap_def create_manifest_with_def demo_pass_def Let_def)
  have rd: "read_file_bytes demo_world (certificate bad_cert_material) = Inr [1, 2, 3]"
    by (simp add: read_file_bytes_def demo_eval)
  have ld: "load_pem_x509_certificate demo_lib [1, 2, 3]
              = Inl (ValueError ''Unable to load PEM file'')"
    by (simp add: demo_eval)
  from malformed_certificate_aborts_after_manifest [OF j mf rd ld, of "''pass.pkpass''"]
  have "create_ap demo_lib demo_pass demo_world bad_cert_material ''pass.pkpass''
          = (Inl (PassCreationError ''Failed to create pass: Unable to load PEM file''
                    (ValueError ''Unable to load PEM file'')), p1, demo_world)"
    by simp
  with j mf rd ld show ?thesis by auto
qed

section \<open>The manifest\<close>




section \<open>Serialising a pass that carries a barcode\<close>




text \<open>The class has neither attribute the two variants read.\<close>

lemma Barcode_has_no_format_nor_altText:
  "Barcode_getattr b ''format'' = Inl (no_attribute ''Barcode'' ''format'')
   \<and> Barcode_getattr b ''altText'' = Inl (no_attribute ''Barcode'' ''altText'')
   \<and> Barcode_getattr b ''message'' = Inl (no_attribute ''Barcode'' ''message'')"
  by (simp add: Barcode_getattr_def)






text \<open>
  With a barcode in one of the original formats \<open>apple_pass.py\<close> does not reach the
  fallback and serialises the pass.
\<close>

lemma original_format_barcode_serialises:
  "\<exists>pass_json.
     create_pass_json_ap
       (demo_pass\<lparr>barcode := Some \<lparr>b_format = QR, b_message = ''0042'',
                                      b_message_encoding = ''iso-8859-1'', b_alt_text = []\<rparr>\<rparr>)
       = Inr pass_json"
  by (simp add: pass_eval json_eval demo_pass_def)


section \<open>Building twice\<close>

text \<open>
  Claim C7. Building a session twice, the second time from the state the first build
  left or from the same state again, gives archives whose \<open>manifest.json\<close> members
  are byte for byte the same, and likewise their \<open>pass.json\<close> members and the
  attachment members; only the signature may differ. This holds whatever material,
  library and entropy the second build runs with.
\<close>

theorem rebuild_is_deterministic:
  assumes "session p"
      and "create_m lib p w m = (Inr a1, p1)"
      and "q = p \<or> q = p1"
      and "create_m lib' q w' m' = (Inr a2, p2)"
  shows "\<exists>sig1 sig2 manifest_bytes pass_bytes rest.
           members a1 = (''signature'', sig1) # (''manifest.json'', manifest_bytes)
                          # (''pass.json'', pass_bytes) # rest
         \<and> members a2 = (''signature'', sig2) # (''manifest.json'', manifest_bytes)
                          # (''pass.json'', pass_bytes) # rest"
proof -
  from create_m_success [OF assms(2)] obtain pj manifest sg ms where
    pj: "create_pass_json_m p = Inr pj"
    and mf: "create_manifest_m p pj = (Inr manifest, p1)"
    and ms: "write_files writestr_bytes (files p1) = (ms, None)"
    and a1: "a1 = \<lparr>members = fixed_members pj manifest sg @ ms, closed = True\<rparr>"
    by blast
  from create_m_success [OF assms(4)] obtain pj' manifest' sg' ms' where
    pj': "create_pass_json_m q = Inr pj'"
    and mf': "create_manifest_m q pj' = (Inr manifest', p2)"
    and ms': "write_files writestr_bytes (files p2) = (ms', None)"
    and a2: "a2 = \<lparr>members = fixed_members pj' manifest' sg' @ ms', closed = True\<rparr>"
    by blast
  from mf obtain h where p1: "p1 = p\<lparr>hashes := h\<rparr>"
    unfolding create_manifest_m_def by (blast dest: create_manifest_with_result)
  from session_covered [OF assms(1)] have dist: "distinct (map fst (hashes p))"
    by (simp add: covered_def)
  have same: "pj' = pj \<and> manifest' = manifest \<and> p2 = p1"
  proof (cases "q = p")
    case True
    with pj pj' mf mf' show ?thesis by simp
  next
    case False
    with assms(3) have q: "q = p1" by simp
    from pj pj' q p1 have j: "pj' = pj" by (simp add: create_pass_json_m_ignores_hashes)
    from create_manifest_with_rerun [OF dist mf [unfolded create_manifest_m_def]]
    have "create_manifest_m p1 pj = (Inr manifest, p1)" by (simp add: create_manifest_m_def)
    with mf' q j show ?thesis by simp
  qed
  with ms ms' have "ms' = ms" by simp
  with same a1 a2 show ?thesis by (simp add: fixed_members_def)
qed

theorem rebuild_is_deterministic_witness:
  "session icon_pass
   \<and> (\<exists>a1 p1 a2 p2 sig1 sig2 manifest_bytes pass_bytes rest.
        create_m demo_lib icon_pass demo_world demo_material = (Inr a1, p1)
        \<and> create_m demo_lib p1 (demo_world\<lparr>entropy := 8\<rparr>) demo_material = (Inr a2, p2)
        \<and> members a1 = (''signature'', sig1) # (''manifest.json'', manifest_bytes)
                          # (''pass.json'', pass_bytes) # rest
        \<and> members a2 = (''signature'', sig2) # (''manifest.json'', manifest_bytes)
                          # (''pass.json'', pass_bytes) # rest
        \<and> sig1 \<noteq> sig2)"
proof -
  have s: "session icon_pass"
    unfolding icon_pass_def
    by (intro session.file_added session.constructed) (simp add: fresh_def demo_pass_def)
  obtain a1 p1 where r1: "create_m demo_lib icon_pass demo_world demo_material = (Inr a1, p1)"
    and sg1: "hd (snd (hd (members a1))) = 7"
    by (simp add: icon_pass_def build_eval pass_eval json_eval demo_eval)
  obtain a2 p2 where
    r2: "create_m demo_lib p1 (demo_world\<lparr>entropy := 8\<rparr>) demo_material = (Inr a2, p2)"
    and sg2: "hd (snd (hd (members a2))) = 8"
    using r1
    by (auto simp add: icon_pass_def build_eval pass_eval json_eval demo_eval)
  from rebuild_is_deterministic [OF s r1 disjI2 [OF refl] r2] obtain sig1 sig2 mb pb rest where
    m: "members a1 = (''signature'', sig1) # (''manifest.json'', mb) # (''pass.json'', pb) # rest"
       "members a2 = (''signature'', sig2) # (''manifest.json'', mb) # (''pass.json'', pb) # rest"
    by auto
  with sg1 sg2 have "sig1 \<noteq> sig2" by auto
  with s r1 r2 m show ?thesis by blast
qed


section \<open>Adding a file twice\<close>






section \<open>What is signed\<close>

text \<open>
  Claim C2. In \<open>apple_pass.py\<close> every successful build signs detached, in DER, with
  the trust anchor as the one additional certificate, but the payload handed to the
  signing routine is the UTF-16 encoding of the manifest text, while the
  \<open>manifest.json\<close> member holds its UTF-8 encoding; the two byte sequences differ for
  every manifest.
\<close>

theorem signature_payload_is_not_the_manifest_member:
  assumes "create_ap lib p w m path = (Inr r, p1, w1)"
  shows "\<exists>a manifest sg cert priv_key wwdr_pem wwdr_cert rest.
           archives w1 path = Some a
         \<and> members a = (''signature'', sg) # (''manifest.json'', encode_utf8 manifest) # rest
         \<and> read_file_bytes w (wwdr_certificate m) = Inr wwdr_pem
         \<and> load_pem_x509_certificate lib wwdr_pem = Inr wwdr_cert
         \<and> pkcs7_sign lib
               \<lparr>sb_data = Some (encode_utf16 manifest),
                sb_signers = [(cert, priv_key, SHA1)],
                sb_additional_certs = [wwdr_cert]\<rparr>
               DER [DetachedSignature] (entropy w) = Inr sg
         \<and> encode_utf16 manifest \<noteq> encode_utf8 manifest"
proof -
  from create_ap_success [OF assms] obtain pj manifest sg ms where
    sg: "create_signature_crypto_ap lib w manifest m = Inr sg"
    and w1: "w1 = w\<lparr>archives := (archives w)(path \<mapsto>
                   \<lparr>members = fixed_members pj manifest sg @ ms, closed = True\<rparr>)\<rparr>"
    by blast
  from create_signature_crypto_success [OF sg [unfolded create_signature_crypto_ap_def]]
  obtain cert priv_key wwdr_pem wwdr_cert where
    "read_file_bytes w (wwdr_certificate m) = Inr wwdr_pem"
    "load_pem_x509_certificate lib wwdr_pem = Inr wwdr_cert"
    "pkcs7_sign lib
       \<lparr>sb_data = Some (encode_utf16 manifest),
        sb_signers = [(cert, priv_key, SHA1)],
        sb_additional_certs = [wwdr_cert]\<rparr>
       DER [DetachedSignature] (entropy w) = Inr sg"
    by auto
  moreover from w1 have "archives w1 path
      = Some \<lparr>members = (''signature'', sg) # (''manifest.json'', encode_utf8 manifest)
                          # (''pass.json'', encode_utf8 pj) # ms, closed = True\<rparr>"
    by (simp add: fixed_members_def)
  ultimately show ?thesis using utf16_neq_utf8 [of manifest] by force
qed

theorem signature_payload_is_not_the_manifest_member_witness:
  "fst (create_ap demo_lib demo_pass demo_world demo_material ''pass.pkpass'')
     = Inr ''pass.pkpass''
   \<and> (\<exists>a manifest sg rest.
         archives (snd (snd (create_ap demo_lib demo_pass demo_world demo_material
                               ''pass.pkpass''))) ''pass.pkpass'' = Some a
         \<and> members a = (''signature'', sg) # (''manifest.json'', encode_utf8 manifest) # rest
         \<and> sg = 7 # encode_utf16 manifest
         \<and> encode_utf16 manifest \<noteq> encode_utf8 manifest)"
proof -
  have ok: "fst (create_ap demo_lib demo_pass demo_world demo_material ''pass.pkpass'')
              = Inr ''pass.pkpass''"
    by (simp add: build_eval pass_eval json_eval demo_eval)
  then obtain p1 w1 where
    r: "create_ap demo_lib demo_pass demo_world demo_material ''pass.pkpass''
          = (Inr ''pass.pkpass'', p1, w1)"
    by (cases "create_ap demo_lib demo_pass demo_world demo_material ''pass.pkpass''") auto
  from signature_payload_is_not_the_manifest_member [OF r]
  obtain a manifest sg cert priv_key wwdr_cert rest where
    a: "archives w1 ''pass.pkpass'' = Some a"
    and m: "members a = (''signature'', sg) # (''manifest.json'', encode_utf8 manifest) # rest"
    and s: "pkcs7_sign demo_lib
              \<lparr>sb_data = Some (encode_utf16 manifest),
               sb_signers = [(cert, priv_key, SHA1)],
               sb_additional_certs = [wwdr_cert]\<rparr>
              DER [DetachedSignature] (entropy demo_world) = Inr sg"
    and n: "encode_utf16 manifest \<noteq> encode_utf8 manifest"
    by blast
  from s have "sg = 7 # encode_utf16 manifest"
    by (simp add: demo_lib_def demo_world_def)
  with ok r a m n show ?thesis by auto
qed


section \<open>The text encoding\<close>

text \<open>
  Claim C6. In \<open>apple_pass.py\<close> a supplied passphrase reaches the key loader encoded
  as UTF-16, the digest recorded for \<open>pass.json\<close> is over the UTF-16 encoding of the
  document, and the signing payload is the UTF-16 encoding of the manifest; none of the
  three is the UTF-8 encoding.
\<close>

theorem apple_pass_encodes_with_utf16:
  assumes "create_ap lib p w m path = (Inr r, p1, w1)"
      and "password m = Some pw"
      and "''pass.json'' \<notin> fst ` set (files p)"
  shows "\<exists>pass_json manifest key_pem priv_key cert wwdr_cert sg.
           create_pass_json_ap p = Inr pass_json
         \<and> fst (create_manifest_ap p pass_json) = Inr manifest
         \<and> read_file_bytes w (key m) = Inr key_pem
         \<and> load_pem_private_key lib key_pem (Some (encode_utf16 pw)) = Inr priv_key
         \<and> map_of (hashes p1) ''pass.json'' = Some (sha1_hexdigest (encode_utf16 pass_json))
         \<and> pkcs7_sign lib
               \<lparr>sb_data = Some (encode_utf16 manifest),
                sb_signers = [(cert, priv_key, SHA1)],
                sb_additional_certs = [wwdr_cert]\<rparr>
               DER [DetachedSignature] (entropy w) = Inr sg
         \<and> encode_utf16 pw \<noteq> encode_utf8 pw
         \<and> encode_utf16 pass_json \<noteq> encode_utf8 pass_json
         \<and> encode_utf16 manifest \<noteq> encode_utf8 manifest"
proof -
  from create_ap_success [OF assms(1)] obtain pj manifest sg where
    pj: "create_pass_json_ap p = Inr pj"
    and mf: "create_manifest_ap p pj = (Inr manifest, p1)"
    and sg: "create_signature_crypto_ap lib w manifest m = Inr sg"
    by blast
  from manifest_pass_json_digest [OF mf [unfolded create_manifest_ap_def] assms(3)]
  have dg: "map_of (hashes p1) ''pass.json'' = Some (sha1_hexdigest (encode_utf16 pj))"
    by simp
  from create_signature_crypto_success [OF sg [unfolded create_signature_crypto_ap_def]]
       assms(2)
  obtain cert key_pem priv_key wwdr_cert where
    "read_file_bytes w (key m) = Inr key_pem"
    "load_pem_private_key lib key_pem (Some (encode_utf16 pw)) = Inr priv_key"
    "pkcs7_sign lib
       \<lparr>sb_data = Some (encode_utf16 manifest),
        sb_signers = [(cert, priv_key, SHA1)],
        sb_additional_certs = [wwdr_cert]\<rparr>
       DER [DetachedSignature] (entropy w) = Inr sg"
    by auto
  with pj mf dg utf16_neq_utf8 [of pw] utf16_neq_utf8 [of pj] utf16_neq_utf8 [of manifest]
  show ?thesis by force
qed

theorem apple_pass_encodes_with_utf16_witness:
  "fst (create_ap echo_lib demo_pass demo_world secret_material ''pass.pkpass'')
     = Inr ''pass.pkpass''
   \<and> password secret_material = Some ''a''
   \<and> ''pass.json'' \<notin> fst ` set (files demo_pass)
   \<and> (\<exists>key_pem priv_key.
         read_file_bytes demo_world (key secret_material) = Inr key_pem
         \<and> load_pem_private_key echo_lib key_pem (Some [0xFF, 0xFE, 0x61, 0]) = Inr priv_key)
   \<and> encode_utf8 ''a'' = [0x61]"
proof -
  have ok: "fst (create_ap echo_lib demo_pass demo_world secret_material ''pass.pkpass'')
              = Inr ''pass.pkpass''"
    by (simp add: build_eval pass_eval json_eval demo_eval echo_lib_def secret_material_def)
  then obtain p1 w1 where
    r: "create_ap echo_lib demo_pass demo_world secret_material ''pass.pkpass''
          = (Inr ''pass.pkpass'', p1, w1)"
    by (cases "create_ap echo_lib demo_pass demo_world secret_material ''pass.pkpass''") auto
  have pw: "password secret_material = Some ''a''" by (simp add: secret_material_def)
  have nf: "''pass.json'' \<notin> fst ` set (files demo_pass)" by (simp add: demo_pass_def)
  have e16: "encode_utf16 ''a'' = [0xFF, 0xFE, 0x61, 0]" by (simp add: codec_eval)
  have e8: "encode_utf8 ''a'' = [0x61]" by (simp add: codec_eval)
  from apple_pass_encodes_with_utf16 [OF r pw nf] obtain key_pem priv_key where
    "read_file_bytes demo_world (key secret_material) = Inr key_pem"
    "load_pem_private_key echo_lib key_pem (Some (encode_utf16 ''a'')) = Inr priv_key"
    by blast
  with ok pw nf e16 e8 show ?thesis by auto
qed

lemma passphrase_bytes_handed_to_the_library:
  "create_signature_crypto_ap echo_lib demo_world ''{}'' secret_material
     = Inr [0xFF, 0xFE, 0x61, 0]
   \<and> create_signature_crypto_m echo_lib demo_world ''{}'' secret_material = Inr [0x61]"
  by (simp add: build_eval demo_eval echo_lib_def secret_material_def codec_eval)

text \<open>The same facts for \<open>models.py\<close>, which encodes with UTF-8 throughout.\<close>

lemma models_encodes_with_utf8:
  assumes "create_m lib p w m = (Inr a, p1)"
      and "''pass.json'' \<notin> fst ` set (files p)"
  shows "\<exists>pass_json manifest key_pem priv_key cert wwdr_cert sg rest.
           create_pass_json_m p = Inr pass_json
         \<and> members a = (''signature'', sg) # (''manifest.json'', encode_utf8 manifest)
                          # (''pass.json'', encode_utf8 pass_json) # rest
         \<and> map_of (hashes p1) ''pass.json'' = Some (sha1_hexdigest (encode_utf8 pass_json))
         \<and> read_file_bytes w (key m) = Inr key_pem
         \<and> load_pem_private_key lib key_pem (map_option encode_utf8 (password m)) = Inr priv_key
         \<and> pkcs7_sign lib
               \<lparr>sb_data = Some (encode_utf8 manifest),
                sb_signers = [(cert, priv_key, SHA1)],
                sb_additional_certs = [wwdr_cert]\<rparr>
               DER [DetachedSignature] (entropy w) = Inr sg"
proof -
  from create_m_success [OF assms(1)] obtain pj manifest sg ms where
    pj: "create_pass_json_m p = Inr pj"
    and mf: "create_manifest_m p pj = (Inr manifest, p1)"
    and sg: "create_signature_crypto_m lib w manifest m = Inr sg"
    and a: "a = \<lparr>members = fixed_members pj manifest sg @ ms, closed = True\<rparr>"
    by blast
  from manifest_pass_json_digest [OF mf [unfolded create_manifest_m_def] assms(2)]
  have dg: "map_of (hashes p1) ''pass.json'' = Some (sha1_hexdigest (encode_utf8 pj))"
    by simp
  from create_signature_crypto_success [OF sg [unfolded create_signature_crypto_m_def]]
  obtain cert key_pem priv_key wwdr_cert where
    "read_file_bytes w (key m) = Inr key_pem"
    "load_pem_private_key lib key_pem (map_option encode_utf8 (password m)) = Inr priv_key"
    "pkcs7_sign lib
       \<lparr>sb_data = Some (encode_utf8 manifest),
        sb_signers = [(cert, priv_key, SHA1)],
        sb_additional_certs = [wwdr_cert]\<rparr>
       DER [DetachedSignature] (entropy w) = Inr sg"
    by (auto simp: comp_def map_option_case split: option.splits)
  with pj dg a show ?thesis by (force simp: fixed_members_def)
qed


section \<open>Digests and the bytes written\<close>

text \<open>What \<open>apple_pass.py\<close> digests for the document is not what it writes.\<close>

lemma pass_json_digest_is_over_other_bytes:
  assumes "create_ap lib p w m path = (Inr r, p1, w1)"
      and "''pass.json'' \<notin> fst ` set (files p)"
  shows "\<exists>a pass_json.
           archives w1 path = Some a
         \<and> named ''pass.json'' (members a) = [(''pass.json'', encode_utf8 pass_json)]
         \<and> map_of (hashes p1) ''pass.json'' = Some (sha1_hexdigest (encode_utf16 pass_json))
         \<and> encode_utf16 pass_json \<noteq> encode_utf8 pass_json"
proof -
  from create_ap_success [OF assms(1)] obtain pj manifest sg ms where
    mf: "create_manifest_ap p pj = (Inr manifest, p1)"
    and ms: "write_files file_data_bytes (files p1) = (ms, None)"
    and w1: "w1 = w\<lparr>archives := (archives w)(path \<mapsto>
                   \<lparr>members = fixed_members pj manifest sg @ ms, closed = True\<rparr>)\<rparr>"
    by blast
  from mf obtain h where "p1 = p\<lparr>hashes := h\<rparr>"
    unfolding create_manifest_ap_def by (blast dest: create_manifest_with_result)
  then have "files p1 = files p" by simp
  with assms(2) have "named ''pass.json'' (files p1) = []" by (simp add: named_absent)
  from write_files_named_none [OF ms this]
  have "named ''pass.json'' (fixed_members pj manifest sg @ ms)
          = [(''pass.json'', encode_utf8 pj)]"
    by (simp add: named_def fixed_members_def)
  moreover from manifest_pass_json_digest [OF mf [unfolded create_manifest_ap_def] assms(2)]
  have "map_of (hashes p1) ''pass.json'' = Some (sha1_hexdigest (encode_utf16 pj))" by simp
  ultimately show ?thesis using w1 utf16_neq_utf8 [of pj] by force
qed

text \<open>For the attachments the digest is over the bytes written.\<close>

lemma attachment_digest_matches_member:
  assumes "create_ap lib p w m path = (Inr r, p1, w1)"
      and "session p"
      and "(n, fd) \<in> set (files p)"
      and "n \<notin> set fixed_names"
  shows "\<exists>a data.
           archives w1 path = Some a
         \<and> named n (members a) = [(n, data)]
         \<and> map_of (hashes p1) n = Some (sha1_hexdigest data)"
proof -
  from create_ap_success [OF assms(1)] obtain pj manifest sg ms where
    mf: "create_manifest_ap p pj = (Inr manifest, p1)"
    and ms: "write_files file_data_bytes (files p1) = (ms, None)"
    and w1: "w1 = w\<lparr>archives := (archives w)(path \<mapsto>
                   \<lparr>members = fixed_members pj manifest sg @ ms, closed = True\<rparr>)\<rparr>"
    by blast
  from session_covered [OF assms(2)] have dist: "distinct (map fst (files p))"
    by (simp add: covered_def)
  let ?h0 = "dict_set ''pass.json'' (sha1_hexdigest (encode UTF16 pj)) (hashes p)"
  obtain r' h where hf: "hash_files file_data_bytes (files p) ?h0 = (r', h)"
    and st: "snd (create_manifest_with UTF16 file_data_bytes p pj) = p\<lparr>hashes := h\<rparr>"
    and res: "case r' of None \<Rightarrow> fst (create_manifest_with UTF16 file_data_bytes p pj)
                                    = Inr (dumps_hashes h)
              | Some e \<Rightarrow> fst (create_manifest_with UTF16 file_data_bytes p pj) = Inl e"
    using create_manifest_with_state [of file_data_bytes p UTF16 pj] by blast
  from mf have eq: "create_manifest_with UTF16 file_data_bytes p pj = (Inr manifest, p1)"
    by (simp add: create_manifest_ap_def)
  from res eq have r': "r' = None" by (cases r') auto
  from st eq have p1: "p1 = p\<lparr>hashes := h\<rparr>" by simp
  from hash_files_digest [OF hf [unfolded r'] assms(3) dist] obtain data where
    d: "file_data_bytes n fd = Inr data" and dg: "map_of h n = Some (sha1_hexdigest data)"
    by blast
  from dist assms(3) have "map_of (files p) n = Some fd" by simp
  with dist have "named n (files p) = [(n, fd)]" by (rule named_distinct)
  with ms p1 write_files_named [of file_data_bytes "files p" ms n fd] d
  have "named n ms = [(n, data)]" by auto
  with named_fixed_members [OF assms(4), of pj manifest sg]
  have "named n (fixed_members pj manifest sg @ ms) = [(n, data)]" by (simp add: named_def)
  with w1 p1 dg show ?thesis by simp
qed

subsection \<open>The two digests of the example document\<close>

text \<open>The digest function on the test vector of the standard, the message \<open>abc\<close>.\<close>

lemma abc_block1:
  "sha1_block (1732584193, 4023233417, 2562383102, 271733878, 3285377520)
     [97, 98, 99, 128, 0, 0, 0, 0, 0, 0, 0, 0, 0, 0, 0, 0, 0, 0, 0, 0, 0, 0, 0, 0, 0, 0, 0, 0, 0, 0,
     0, 0, 0, 0, 0, 0, 0, 0, 0, 0, 0, 0, 0, 0, 0, 0, 0, 0, 0, 0, 0, 0, 0, 0, 0, 0, 0, 0, 0, 0, 0, 0,
     0, 24]
   = (2845392438, 1191608682, 3124634993, 2018558572, 2630932637)"
  by (simp add: block_eval)

lemma abc_pad:
  "sha1_pad
     [97, 98, 99]
   = [97, 98, 99, 128, 0, 0, 0, 0, 0, 0, 0, 0, 0, 0, 0, 0, 0, 0, 0, 0, 0, 0, 0, 0, 0, 0, 0, 0, 0, 0,
     0, 0, 0, 0, 0, 0, 0, 0, 0, 0, 0, 0, 0, 0, 0, 0, 0, 0, 0, 0, 0, 0, 0, 0, 0, 0, 0, 0, 0, 0, 0, 0,
     0, 24]"
  by (simp add: sha1_pad_def len_bytes_def replicate_numeral_eval)

lemma abc_blocks:
  "sha1_blocks sha1_init
     [97, 98, 99, 128, 0, 0, 0, 0, 0, 0, 0, 0, 0, 0, 0, 0, 0, 0, 0, 0, 0, 0, 0, 0, 0, 0, 0, 0, 0, 0,
     0, 0, 0, 0, 0, 0, 0, 0, 0, 0, 0, 0, 0, 0, 0, 0, 0, 0, 0, 0, 0, 0, 0, 0, 0, 0, 0, 0, 0, 0, 0, 0,
     0, 24]
   = (2845392438, 1191608682, 3124634993, 2018558572, 2630932637)"
  by (simp add: sha1_blocks.simps sha1_init_def abc_block1)

lemma abc_digest:
  "sha1_hexdigest
     [97, 98, 99]
   = ''a9993e364706816aba3e25717850c26c9cd0d89d''"
  by (simp add: sha1_hexdigest_def sha1_def abc_pad abc_blocks digest_eval)

text \<open>The document of the example pass, as \<open>json.dumps\<close> renders it.\<close>

lemma demo_pass_json:
  \<open>create_pass_json_ap demo_pass = Inr ''{"description": "Gate 22", "formatVersion": 1, "organizationName": "Example", "passTypeIdentifier": "pass.com.example", "serialNumber": "1", "teamIdentifier": "TEAM", "suppressStripShine": false, "generic": {}}''\<close>
  by (simp add: pass_eval json_eval demo_pass_def)

text \<open>The UTF-16 encoding of the example's \<open>pass.json\<close>, block by block.\<close>

lemma demo_utf16_block1:
  "sha1_block (1732584193, 4023233417, 2562383102, 271733878, 3285377520)
     [255, 254, 123, 0, 34, 0, 100, 0, 101, 0, 115, 0, 99, 0, 114, 0, 105, 0, 112, 0, 116, 0, 105, 0,
     111, 0, 110, 0, 34, 0, 58, 0, 32, 0, 34, 0, 71, 0, 97, 0, 116, 0, 101, 0, 32, 0, 50, 0, 50, 0,
     34, 0, 44, 0, 32, 0, 34, 0, 102, 0, 111, 0, 114, 0]
   = (3177440203, 473710360, 2093136607, 3808477868, 1568813114)"
  by (simp add: block_eval)

lemma demo_utf16_block2:
  "sha1_block (3177440203, 473710360, 2093136607, 3808477868, 1568813114)
     [109, 0, 97, 0, 116, 0, 86, 0, 101, 0, 114, 0, 115, 0, 105, 0, 111, 0, 110, 0, 34, 0, 58, 0, 32,
     0, 49, 0, 44, 0, 32, 0, 34, 0, 111, 0, 114, 0, 103, 0, 97, 0, 110, 0, 105, 0, 122, 0, 97, 0, 116,
     0, 105, 0, 111, 0, 110, 0, 78, 0, 97, 0, 109, 0]
   = (2357584328, 1282621542, 2778137300, 1974281394, 437562922)"
  by (simp add: block_eval)

lemma demo_utf16_block3:
  "sha1_block (2357584328, 1282621542, 2778137300, 1974281394, 437562922)
     [101, 0, 34, 0, 58, 0, 32, 0, 34, 0, 69, 0, 120, 0, 97, 0, 109, 0, 112, 0, 108, 0, 101, 0, 34, 0,
     44, 0, 32, 0, 34, 0, 112, 0, 97, 0, 115, 0, 115, 0, 84, 0, 121, 0, 112, 0, 101, 0, 73, 0, 100, 0,
     101, 0, 110, 0, 116, 0, 105, 0, 102, 0, 105, 0]
   = (2028888643, 1111482271, 1580147130, 2491380095, 3338805339)"
  by (simp add: block_eval)

lemma demo_utf16_block4:
  "sha1_block (2028888643, 1111482271, 1580147130, 2491380095, 3338805339)
     [101, 0, 114, 0, 34, 0, 58, 0, 32, 0, 34, 0, 112, 0, 97, 0, 115, 0, 115, 0, 46, 0, 99, 0, 111, 0,
     109, 0, 46, 0, 101, 0, 120, 0, 97, 0, 109, 0, 112, 0, 108, 0, 101, 0, 34, 0, 44, 0, 32, 0, 34, 0,
     115, 0, 101, 0, 114, 0, 105, 0, 97, 0, 108, 0]
   = (3165541909, 4073466515, 577300686, 673555031, 4033678878)"
  by (simp add: block_eval)

lemma demo_utf16_block5:
  "sha1_block (3165541909, 4073466515, 577300686, 673555031, 4033678878)
     [78, 0, 117, 0, 109, 0, 98, 0, 101, 0, 114, 0, 34, 0, 58, 0, 32, 0, 34, 0, 49, 0, 34, 0, 44, 0,
     32, 0, 34, 0, 116, 0, 101, 0, 97, 0, 109, 0, 73, 0, 100, 0, 101, 0, 110, 0, 116, 0, 105, 0, 102,
     0, 105, 0, 101, 0, 114, 0, 34, 0, 58, 0, 32, 0]
   = (2083119482, 1309344647, 1323853546, 1490664110, 3063938060)"
  by (simp add: block_eval)

lemma demo_utf16_block6:
  "sha1_block (2083119482, 1309344647, 1323853546, 1490664110, 3063938060)
     [34, 0, 84, 0, 69, 0, 65, 0, 77, 0, 34, 0, 44, 0, 32, 0, 34, 0, 115, 0, 117, 0, 112, 0, 112, 0,
     114, 0, 101, 0, 115, 0, 115, 0, 83, 0, 116, 0, 114, 0, 105, 0, 112, 0, 83, 0, 104, 0, 105, 0,
     110, 0, 101, 0, 34, 0, 58, 0, 32, 0, 102, 0, 97, 0]
   = (3163593306, 3586184895, 3962685413, 1383257055, 2444311342)"
  by (simp add: block_eval)

lemma demo_utf16_block7:
  "sha1_block (3163593306, 3586184895, 3962685413, 1383257055, 2444311342)
     [108, 0, 115, 0, 101, 0, 44, 0, 32, 0, 34, 0, 103, 0, 101, 0, 110, 0, 101, 0, 114, 0, 105, 0, 99,
     0, 34, 0, 58, 0, 32, 0, 123, 0, 125, 0, 125, 0, 128, 0, 0, 0, 0, 0, 0, 0, 0, 0, 0, 0, 0, 0, 0, 0,
     0, 0, 0, 0, 0, 0, 0, 0, 13, 48]
   = (34925618, 1608598340, 1667843898, 1135176256, 2670808500)"
  by (simp add: block_eval)

lemma demo_utf16_pad:
  "sha1_pad
     [255, 254, 123, 0, 34, 0, 100, 0, 101, 0, 115, 0, 99, 0, 114, 0, 105, 0, 112, 0, 116, 0, 105, 0,
     111, 0, 110, 0, 34, 0, 58, 0, 32, 0, 34, 0, 71, 0, 97, 0, 116, 0, 101, 0, 32, 0, 50, 0, 50, 0,
     34, 0, 44, 0, 32, 0, 34, 0, 102, 0, 111, 0, 114, 0, 109, 0, 97, 0, 116, 0, 86, 0, 101, 0, 114, 0,
     115, 0, 105, 0, 111, 0, 110, 0, 34, 0, 58, 0, 32, 0, 49, 0, 44, 0, 32, 0, 34, 0, 111, 0, 114, 0,
     103, 0, 97, 0, 110, 0, 105, 0, 122, 0, 97, 0, 116, 0, 105, 0, 111, 0, 110, 0, 78, 0, 97, 0, 109,
     0, 101, 0, 34, 0, 58, 0, 32, 0, 34, 0, 69, 0, 120, 0, 97, 0, 109, 0, 112, 0, 108, 0, 101, 0, 34,
     0, 44, 0, 32, 0, 34, 0, 112, 0, 97, 0, 115, 0, 115, 0, 84, 0, 121, 0, 112, 0, 101, 0, 73, 0, 100,
     0, 101, 0, 110, 0, 116, 0, 105, 0, 102, 0, 105, 0, 101, 0, 114, 0, 34, 0, 58, 0, 32, 0, 34, 0,
     112, 0, 97, 0, 115, 0, 115, 0, 46, 0, 99, 0, 111, 0, 109, 0, 46, 0, 101, 0, 120, 0, 97, 0, 109,
     0, 112, 0, 108, 0, 101, 0, 34, 0, 44, 0, 32, 0, 34, 0, 115, 0, 101, 0, 114, 0, 105, 0, 97, 0,
     108, 0, 78, 0, 117, 0, 109, 0, 98, 0, 101, 0, 114, 0, 34, 0, 58, 0, 32, 0, 34, 0, 49, 0, 34, 0,
     44, 0, 32, 0, 34, 0, 116, 0, 101, 0, 97, 0, 109, 0, 73, 0, 100, 0, 101, 0, 110, 0, 116, 0, 105,
     0, 102, 0, 105, 0, 101, 0, 114, 0, 34, 0, 58, 0, 32, 0, 34, 0, 84, 0, 69, 0, 65, 0, 77, 0, 34, 0,
     44, 0, 32, 0, 34, 0, 115, 0, 117, 0, 112, 0, 112, 0, 114, 0, 101, 0, 115, 0, 115, 0, 83, 0, 116,
     0, 114, 0, 105, 0, 112, 0, 83, 0, 104, 0, 105, 0, 110, 0, 101, 0, 34, 0, 58, 0, 32, 0, 102, 0,
     97, 0, 108, 0, 115, 0, 101, 0, 44, 0, 32, 0, 34, 0, 103, 0, 101, 0, 110, 0, 101, 0, 114, 0, 105,
     0, 99, 0, 34, 0, 58, 0, 32, 0, 123, 0, 125, 0, 125, 0]
   = [255, 254, 123, 0, 34, 0, 100, 0, 101, 0, 115, 0, 99, 0, 114, 0, 105, 0, 112, 0, 116, 0, 105, 0,
     111, 0, 110, 0, 34, 0, 58, 0, 32, 0, 34, 0, 71, 0, 97, 0, 116, 0, 101, 0, 32, 0, 50, 0, 50, 0,
     34, 0, 44, 0, 32, 0, 34, 0, 102, 0, 111, 0, 114, 0, 109, 0, 97, 0, 116, 0, 86, 0, 101, 0, 114, 0,
     115, 0, 105, 0, 111, 0, 110, 0, 34, 0, 58, 0, 32, 0, 49, 0, 44, 0, 32, 0, 34, 0, 111, 0, 114, 0,
     103, 0, 97, 0, 110, 0, 105, 0, 122, 0, 97, 0, 116, 0, 105, 0, 111, 0, 110, 0, 78, 0, 97, 0, 109,
     0, 101, 0, 34, 0, 58, 0, 32, 0, 34, 0, 69, 0, 120, 0, 97, 0, 109, 0, 112, 0, 108, 0, 101, 0, 34,
     0, 44, 0, 32, 0, 34, 0, 112, 0, 97, 0, 115, 0, 115, 0, 84, 0, 121, 0, 112, 0, 101, 0, 73, 0, 100,
     0, 101, 0, 110, 0, 116, 0, 105, 0, 102, 0, 105, 0, 101, 0, 114, 0, 34, 0, 58, 0, 32, 0, 34, 0,
     112, 0, 97, 0, 115, 0, 115, 0, 46, 0, 99, 0, 111, 0, 109, 0, 46, 0, 101, 0, 120, 0, 97, 0, 109,
     0, 112, 0, 108, 0, 101, 0, 34, 0, 44, 0, 32, 0, 34, 0, 115, 0, 101, 0, 114, 0, 105, 0, 97, 0,
     108, 0, 78, 0, 117, 0, 109, 0, 98, 0, 101, 0, 114, 0, 34, 0, 58, 0, 32, 0, 34, 0, 49, 0, 34, 0,
     44, 0, 32, 0, 34, 0, 116, 0, 101, 0, 97, 0, 109, 0, 73, 0, 100, 0, 101, 0, 110, 0, 116, 0, 105,
     0, 102, 0, 105, 0, 101, 0, 114, 0, 34, 0, 58, 0, 32, 0, 34, 0, 84, 0, 69, 0, 65, 0, 77, 0, 34, 0,
     44, 0, 32, 0, 34, 0, 115, 0, 117, 0, 112, 0, 112, 0, 114, 0, 101, 0, 115, 0, 115, 0, 83, 0, 116,
     0, 114, 0, 105, 0, 112, 0, 83, 0, 104, 0, 105, 0, 110, 0, 101, 0, 34, 0, 58, 0, 32, 0, 102, 0,
     97, 0, 108, 0, 115, 0, 101, 0, 44, 0, 32, 0, 34, 0, 103, 0, 101, 0, 110, 0, 101, 0, 114, 0, 105,
     0, 99, 0, 34, 0, 58, 0, 32, 0, 123, 0, 125, 0, 125, 0, 128, 0, 0, 0, 0, 0, 0, 0, 0, 0, 0, 0, 0,
     0, 0, 0, 0, 0, 0, 0, 0, 0, 0, 0, 13, 48]"
  by (simp add: sha1_pad_def len_bytes_def replicate_numeral_eval)

lemma demo_utf16_blocks:
  "sha1_blocks sha1_init
     [255, 254, 123, 0, 34, 0, 100, 0, 101, 0, 115, 0, 99, 0, 114, 0, 105, 0, 112, 0, 116, 0, 105, 0,
     111, 0, 110, 0, 34, 0, 58, 0, 32, 0, 34, 0, 71, 0, 97, 0, 116, 0, 101, 0, 32, 0, 50, 0, 50, 0,
     34, 0, 44, 0, 32, 0, 34, 0, 102, 0, 111, 0, 114, 0, 109, 0, 97, 0, 116, 0, 86, 0, 101, 0, 114, 0,
     115, 0, 105, 0, 111, 0, 110, 0, 34, 0, 58, 0, 32, 0, 49, 0, 44, 0, 32, 0, 34, 0, 111, 0, 114, 0,
     103, 0, 97, 0, 110, 0, 105, 0, 122, 0, 97, 0, 116, 0, 105, 0, 111, 0, 110, 0, 78, 0, 97, 0, 109,
     0, 101, 0, 34, 0, 58, 0, 32, 0, 34, 0, 69, 0, 120, 0, 97, 0, 109, 0, 112, 0, 108, 0, 101, 0, 34,
     0, 44, 0, 32, 0, 34, 0, 112, 0, 97, 0, 115, 0, 115, 0, 84, 0, 121, 0, 112, 0, 101, 0, 73, 0, 100,
     0, 101, 0, 110, 0, 116, 0, 105, 0, 102, 0, 105, 0, 101, 0, 114, 0, 34, 0, 58, 0, 32, 0, 34, 0,
     112, 0, 97, 0, 115, 0, 115, 0, 46, 0, 99, 0, 111, 0, 109, 0, 46, 0, 101, 0, 120, 0, 97, 0, 109,
     0, 112, 0, 108, 0, 101, 0, 34, 0, 44, 0, 32, 0, 34, 0, 115, 0, 101, 0, 114, 0, 105, 0, 97, 0,
     108, 0, 78, 0, 117, 0, 109, 0, 98, 0, 101, 0, 114, 0, 34, 0, 58, 0, 32, 0, 34, 0, 49, 0, 34, 0,
     44, 0, 32, 0, 34, 0, 116, 0, 101, 0, 97, 0, 109, 0, 73, 0, 100, 0, 101, 0, 110, 0, 116, 0, 105,
     0, 102, 0, 105, 0, 101, 0, 114, 0, 34, 0, 58, 0, 32, 0, 34, 0, 84, 0, 69, 0, 65, 0, 77, 0, 34, 0,
     44, 0, 32, 0, 34, 0, 115, 0, 117, 0, 112, 0, 112, 0, 114, 0, 101, 0, 115, 0, 115, 0, 83, 0, 116,
     0, 114, 0, 105, 0, 112, 0, 83, 0, 104, 0, 105, 0, 110, 0, 101, 0, 34, 0, 58, 0, 32, 0, 102, 0,
     97, 0, 108, 0, 115, 0, 101, 0, 44, 0, 32, 0, 34, 0, 103, 0, 101, 0, 110, 0, 101, 0, 114, 0, 105,
     0, 99, 0, 34, 0, 58, 0, 32, 0, 123, 0, 125, 0, 125, 0, 128, 0, 0, 0, 0, 0, 0, 0, 0, 0, 0, 0, 0,
     0, 0, 0, 0, 0, 0, 0, 0, 0, 0, 0, 13, 48]
   = (34925618, 1608598340, 1667843898, 1135176256, 2670808500)"
  by (simp add: sha1_blocks.simps sha1_init_def demo_utf16_block1 demo_utf16_block2 demo_utf16_block3 demo_utf16_block4 demo_utf16_block5 demo_utf16_block6 demo_utf16_block7)

lemma demo_utf16_digest:
  "sha1_hexdigest
     [255, 254, 123, 0, 34, 0, 100, 0, 101, 0, 115, 0, 99, 0, 114, 0, 105, 0, 112, 0, 116, 0, 105, 0,
     111, 0, 110, 0, 34, 0, 58, 0, 32, 0, 34, 0, 71, 0, 97, 0, 116, 0, 101, 0, 32, 0, 50, 0, 50, 0,
     34, 0, 44, 0, 32, 0, 34, 0, 102, 0, 111, 0, 114, 0, 109, 0, 97, 0, 116, 0, 86, 0, 101, 0, 114, 0,
     115, 0, 105, 0, 111, 0, 110, 0, 34, 0, 58, 0, 32, 0, 49, 0, 44, 0, 32, 0, 34, 0, 111, 0, 114, 0,
     103, 0, 97, 0, 110, 0, 105, 0, 122, 0, 97, 0, 116, 0, 105, 0, 111, 0, 110, 0, 78, 0, 97, 0, 109,
     0, 101, 0, 34, 0, 58, 0, 32, 0, 34, 0, 69, 0, 120, 0, 97, 0, 109, 0, 112, 0, 108, 0, 101, 0, 34,
     0, 44, 0, 32, 0, 34, 0, 112, 0, 97, 0, 115, 0, 115, 0, 84, 0, 121, 0, 112, 0, 101, 0, 73, 0, 100,
     0, 101, 0, 110, 0, 116, 0, 105, 0, 102, 0, 105, 0, 101, 0, 114, 0, 34, 0, 58, 0, 32, 0, 34, 0,
     112, 0, 97, 0, 115, 0, 115, 0, 46, 0, 99, 0, 111, 0, 109, 0, 46, 0, 101, 0, 120, 0, 97, 0, 109,
     0, 112, 0, 108, 0, 101, 0, 34, 0, 44, 0, 32, 0, 34, 0, 115, 0, 101, 0, 114, 0, 105, 0, 97, 0,
     108, 0, 78, 0, 117, 0, 109, 0, 98, 0, 101, 0, 114, 0, 34, 0, 58, 0, 32, 0, 34, 0, 49, 0, 34, 0,
     44, 0, 32, 0, 34, 0, 116, 0, 101, 0, 97, 0, 109, 0, 73, 0, 100, 0, 101, 0, 110, 0, 116, 0, 105,
     0, 102, 0, 105, 0, 101, 0, 114, 0, 34, 0, 58, 0, 32, 0, 34, 0, 84, 0, 69, 0, 65, 0, 77, 0, 34, 0,
     44, 0, 32, 0, 34, 0, 115, 0, 117, 0, 112, 0, 112, 0, 114, 0, 101, 0, 115, 0, 115, 0, 83, 0, 116,
     0, 114, 0, 105, 0, 112, 0, 83, 0, 104, 0, 105, 0, 110, 0, 101, 0, 34, 0, 58, 0, 32, 0, 102, 0,
     97, 0, 108, 0, 115, 0, 101, 0, 44, 0, 32, 0, 34, 0, 103, 0, 101, 0, 110, 0, 101, 0, 114, 0, 105,
     0, 99, 0, 34, 0, 58, 0, 32, 0, 123, 0, 125, 0, 125, 0]
   = ''0214ec325fe143446369473a43a96a409f314db4''"
  by (simp add: sha1_hexdigest_def sha1_def demo_utf16_pad demo_utf16_blocks digest_eval)


text \<open>Its UTF-8 encoding.\<close>

lemma demo_utf8_block1:
  "sha1_block (1732584193, 4023233417, 2562383102, 271733878, 3285377520)
     [123, 34, 100, 101, 115, 99, 114, 105, 112, 116, 105, 111, 110, 34, 58, 32, 34, 71, 97, 116, 101,
     32, 50, 50, 34, 44, 32, 34, 102, 111, 114, 109, 97, 116, 86, 101, 114, 115, 105, 111, 110, 34,
     58, 32, 49, 44, 32, 34, 111, 114, 103, 97, 110, 105, 122, 97, 116, 105, 111, 110, 78, 97, 109,
     101]
   = (3711693576, 3078520527, 1980270368, 3712986035, 3016141558)"
  by (simp add: block_eval)

lemma demo_utf8_block2:
  "sha1_block (3711693576, 3078520527, 1980270368, 3712986035, 3016141558)
     [34, 58, 32, 34, 69, 120, 97, 109, 112, 108, 101, 34, 44, 32, 34, 112, 97, 115, 115, 84, 121,
     112, 101, 73, 100, 101, 110, 116, 105, 102, 105, 101, 114, 34, 58, 32, 34, 112, 97, 115, 115, 46,
     99, 111, 109, 46, 101, 120, 97, 109, 112, 108, 101, 34, 44, 32, 34, 115, 101, 114, 105, 97, 108,
     78]
   = (3020257262, 170420754, 278373732, 208039017, 2291048261)"
  by (simp add: block_eval)

lemma demo_utf8_block3:
  "sha1_block (3020257262, 170420754, 278373732, 208039017, 2291048261)
     [117, 109, 98, 101, 114, 34, 58, 32, 34, 49, 34, 44, 32, 34, 116, 101, 97, 109, 73, 100, 101,
     110, 116, 105, 102, 105, 101, 114, 34, 58, 32, 34, 84, 69, 65, 77, 34, 44, 32, 34, 115, 117, 112,
     112, 114, 101, 115, 115, 83, 116, 114, 105, 112, 83, 104, 105, 110, 101, 34, 58, 32, 102, 97,
     108]
   = (1170483215, 1929364467, 3866617773, 2040706922, 2988560345)"
  by (simp add: block_eval)

lemma demo_utf8_block4:
  "sha1_block (1170483215, 1929364467, 3866617773, 2040706922, 2988560345)
     [115, 101, 44, 32, 34, 103, 101, 110, 101, 114, 105, 99, 34, 58, 32, 123, 125, 125, 128, 0, 0, 0,
     0, 0, 0, 0, 0, 0, 0, 0, 0, 0, 0, 0, 0, 0, 0, 0, 0, 0, 0, 0, 0, 0, 0, 0, 0, 0, 0, 0, 0, 0, 0, 0,
     0, 0, 0, 0, 0, 0, 0, 0, 6, 144]
   = (3704347142, 3156931962, 4148563507, 3606725990, 674927130)"
  by (simp add: block_eval)

lemma demo_utf8_pad:
  "sha1_pad
     [123, 34, 100, 101, 115, 99, 114, 105, 112, 116, 105, 111, 110, 34, 58, 32, 34, 71, 97, 116, 101,
     32, 50, 50, 34, 44, 32, 34, 102, 111, 114, 109, 97, 116, 86, 101, 114, 115, 105, 111, 110, 34,
     58, 32, 49, 44, 32, 34, 111, 114, 103, 97, 110, 105, 122, 97, 116, 105, 111, 110, 78, 97, 109,
     101, 34, 58, 32, 34, 69, 120, 97, 109, 112, 108, 101, 34, 44, 32, 34, 112, 97, 115, 115, 84, 121,
     112, 101, 73, 100, 101, 110, 116, 105, 102, 105, 101, 114, 34, 58, 32, 34, 112, 97, 115, 115, 46,
     99, 111, 109, 46, 101, 120, 97, 109, 112, 108, 101, 34, 44, 32, 34, 115, 101, 114, 105, 97, 108,
     78, 117, 109, 98, 101, 114, 34, 58, 32, 34, 49, 34, 44, 32, 34, 116, 101, 97, 109, 73, 100, 101,
     110, 116, 105, 102, 105, 101, 114, 34, 58, 32, 34, 84, 69, 65, 77, 34, 44, 32, 34, 115, 117, 112,
     112, 114, 101, 115, 115, 83, 116, 114, 105, 112, 83, 104, 105, 110, 101, 34, 58, 32, 102, 97,
     108, 115, 101, 44, 32, 34, 103, 101, 110, 101, 114, 105, 99, 34, 58, 32, 123, 125, 125]
   = [123, 34, 100, 101, 115, 99, 114, 105, 112, 116, 105, 111, 110, 34, 58, 32, 34, 71, 97, 116, 101,
     32, 50, 50, 34, 44, 32, 34, 102, 111, 114, 109, 97, 116, 86, 101, 114, 115, 105, 111, 110, 34,
     58, 32, 49, 44, 32, 34, 111, 114, 103, 97, 110, 105, 122, 97, 116, 105, 111, 110, 78, 97, 109,
     101, 34, 58, 32, 34, 69, 120, 97, 109, 112, 108, 101, 34, 44, 32, 34, 112, 97, 115, 115, 84, 121,
     112, 101, 73, 100, 101, 110, 116, 105, 102, 105, 101, 114, 34, 58, 32, 34, 112, 97, 115, 115, 46,
     99, 111, 109, 46, 101, 120, 97, 109, 112, 108, 101, 34, 44, 32, 34, 115, 101, 114, 105, 97, 108,
     78, 117, 109, 98, 101, 114, 34, 58, 32, 34, 49, 34, 44, 32, 34, 116, 101, 97, 109, 73, 100, 101,
     110, 116, 105, 102, 105, 101, 114, 34, 58, 32, 34, 84, 69, 65, 77, 34, 44, 32, 34, 115, 117, 112,
     112, 114, 101, 115, 115, 83, 116, 114, 105, 112, 83, 104, 105, 110, 101, 34, 58, 32, 102, 97,
     108, 115, 101, 44, 32, 34, 103, 101, 110, 101, 114, 105, 99, 34, 58, 32, 123, 125, 125, 128, 0,
     0, 0, 0, 0, 0, 0, 0, 0, 0, 0, 0, 0, 0, 0, 0, 0, 0, 0, 0, 0, 0, 0, 0, 0, 0, 0, 0, 0, 0, 0, 0, 0,
     0, 0, 0, 0, 0, 0, 0, 0, 0, 0, 6, 144]"
  by (simp add: sha1_pad_def len_bytes_def replicate_numeral_eval)

lemma demo_utf8_blocks:
  "sha1_blocks sha1_init
     [123, 34, 100, 101, 115, 99, 114, 105, 112, 116, 105, 111, 110, 34, 58, 32, 34, 71, 97, 116, 101,
     32, 50, 50, 34, 44, 32, 34, 102, 111, 114, 109, 97, 116, 86, 101, 114, 115, 105, 111, 110, 34,
     58, 32, 49, 44, 32, 34, 111, 114, 103, 97, 110, 105, 122, 97, 116, 105, 111, 110, 78, 97, 109,
     101, 34, 58, 32, 34, 69, 120, 97, 109, 112, 108, 101, 34, 44, 32, 34, 112, 97, 115, 115, 84, 121,
     112, 101, 73, 100, 101, 110, 116, 105, 102, 105, 101, 114, 34, 58, 32, 34, 112, 97, 115, 115, 46,
     99, 111, 109, 46, 101, 120, 97, 109, 112, 108, 101, 34, 44, 32, 34, 115, 101, 114, 105, 97, 108,
     78, 117, 109, 98, 101, 114, 34, 58, 32, 34, 49, 34, 44, 32, 34, 116, 101, 97, 109, 73, 100, 101,
     110, 116, 105, 102, 105, 101, 114, 34, 58, 32, 34, 84, 69, 65, 77, 34, 44, 32, 34, 115, 117, 112,
     112, 114, 101, 115, 115, 83, 116, 114, 105, 112, 83, 104, 105, 110, 101, 34, 58, 32, 102, 97,
     108, 115, 101, 44, 32, 34, 103, 101, 110, 101, 114, 105, 99, 34, 58, 32, 123, 125, 125, 128, 0,
     0, 0, 0, 0, 0, 0, 0, 0, 0, 0, 0, 0, 0, 0, 0, 0, 0, 0, 0, 0, 0, 0, 0, 0, 0, 0, 0, 0, 0, 0, 0, 0,
     0, 0, 0, 0, 0, 0, 0, 0, 0, 0, 6, 144]
   = (3704347142, 3156931962, 4148563507, 3606725990, 674927130)"
  by (simp add: sha1_blocks.simps sha1_init_def demo_utf8_block1 demo_utf8_block2 demo_utf8_block3 demo_utf8_block4)

lemma demo_utf8_digest:
  "sha1_hexdigest
     [123, 34, 100, 101, 115, 99, 114, 105, 112, 116, 105, 111, 110, 34, 58, 32, 34, 71, 97, 116, 101,
     32, 50, 50, 34, 44, 32, 34, 102, 111, 114, 109, 97, 116, 86, 101, 114, 115, 105, 111, 110, 34,
     58, 32, 49, 44, 32, 34, 111, 114, 103, 97, 110, 105, 122, 97, 116, 105, 111, 110, 78, 97, 109,
     101, 34, 58, 32, 34, 69, 120, 97, 109, 112, 108, 101, 34, 44, 32, 34, 112, 97, 115, 115, 84, 121,
     112, 101, 73, 100, 101, 110, 116, 105, 102, 105, 101, 114, 34, 58, 32, 34, 112, 97, 115, 115, 46,
     99, 111, 109, 46, 101, 120, 97, 109, 112, 108, 101, 34, 44, 32, 34, 115, 101, 114, 105, 97, 108,
     78, 117, 109, 98, 101, 114, 34, 58, 32, 34, 49, 34, 44, 32, 34, 116, 101, 97, 109, 73, 100, 101,
     110, 116, 105, 102, 105, 101, 114, 34, 58, 32, 34, 84, 69, 65, 77, 34, 44, 32, 34, 115, 117, 112,
     112, 114, 101, 115, 115, 83, 116, 114, 105, 112, 83, 104, 105, 110, 101, 34, 58, 32, 102, 97,
     108, 115, 101, 44, 32, 34, 103, 101, 110, 101, 114, 105, 99, 34, 58, 32, 123, 125, 125]
   = ''dccbda06bc2af57af7460e33d6fa4566283a921a''"
  by (simp add: sha1_hexdigest_def sha1_def demo_utf8_pad demo_utf8_blocks digest_eval)


text \<open>
  Claim C1. For the example pass built by \<open>apple_pass.py\<close>, the digest the manifest
  records under \<open>pass.json\<close> and the digest of the bytes of the archive member
  \<open>pass.json\<close> are different strings.
\<close>

theorem pass_json_digest_mismatch:
  "map_of (hashes (fst (snd
      (create_ap demo_lib demo_pass demo_world demo_material ''pass.pkpass''))))
      ''pass.json''
     = Some ''0214ec325fe143446369473a43a96a409f314db4''
   \<and> map (\<lambda>kv. sha1_hexdigest (snd kv))
         (named ''pass.json'' (members (the (archives (snd (snd
            (create_ap demo_lib demo_pass demo_world demo_material ''pass.pkpass'')))
            ''pass.pkpass''))))
     = [''dccbda06bc2af57af7460e33d6fa4566283a921a'']"
  by (simp add: build_eval pass_eval json_eval demo_eval named_def codec_eval
        demo_utf16_digest demo_utf8_digest)

end
